theory Spec2Isabelle
  imports Main
begin

section \<open>Go values, AST nodes and the store\<close>

text \<open>
  The builder of \<^verbatim>\<open>tree/managers/select_manager.go\<close> works on objects reached through
  pointers: the statement (\<^verbatim>\<open>*nodes.SelectStatementNode\<close>), its cores
  (\<^verbatim>\<open>*nodes.SelectCoreNode\<close>), the join nodes that \<^verbatim>\<open>On\<close> writes to and the
  relations. Each such struct type has its own heap, a list indexed by address; an
  address beyond the end of its heap stands for a nil (or otherwise invalid) pointer,
  and dereferencing it is a runtime panic.
\<close>

type_synonym addr = nat

datatype 'a outcome = Panics | Returns 'a

definition deref :: "'a list \<Rightarrow> addr \<Rightarrow> 'a option" where
  "deref heap a = (if a < length heap then Some (heap ! a) else None)"

text \<open>
  Modelled from the spec: the node types of package \<^verbatim>\<open>nodes\<close>, whose source files are
  not part of the development; the constructors are named after the Go struct types and
  carry the attributes of the spec's data model (an Attribute has a column-or-star and
  an owning relation, a Join a left relation and a right side, a combinator a left and
  a right statement).

  The type is that of a value of Go's \<^verbatim>\<open>interface{}\<close>: nil, a string, an integer, any
  other Go value (\<open>GoOther\<close>), or a node. The node structs that the builder only creates
  and never writes to afterwards are values; the structs it mutates in place appear as
  typed pointers into the store. An \<^verbatim>\<open>Accessor\<close> is the closure made by \<^verbatim>\<open>Table\<close>,
  given by the relation it captured.
\<close>

datatype node =
    GoNil
  | GoString string
  | GoInt int
  | GoOther nat
  | StarNode
  | ColumnNode node
  | LiteralNode node
  | AttributeNode node addr
  | GroupingNode node
  | OnNode node
  | HavingNode node
  | OffsetNode int
  | LimitNode int
  | UnionNode addr addr
  | IntersectNode addr addr
  | ExceptNode addr addr
  | RelationPtr addr
  | InnerJoinPtr addr
  | OuterJoinPtr addr
  | AccessorFn addr

fun is_string :: "node \<Rightarrow> bool" where
  "is_string (GoString s) = True"
| "is_string n = False"

record RelationNode =
  Name :: string

record JoinNode =
  JoinLeft :: addr
  JoinRight :: node

text \<open>
  The fields are those the manager reads and writes. \<^verbatim>\<open>Source\<close> is held inside its
  core (\<open>SourceLeft\<close>, \<open>SourceRight\<close>); \<^verbatim>\<open>Cores\<close> is a slice of core pointers, since
  \<^verbatim>\<open>Selection\<close> assigns \<^verbatim>\<open>Tree.Cores[0]\<close> to a \<^verbatim>\<open>*nodes.SelectCoreNode\<close>. A Go slice is a
  list: every append of the manager is assigned back to the field it was read from.
\<close>

record SelectCoreNode =
  Relation :: addr
  Projections :: "node list"
  Wheres :: "node list"
  SourceLeft :: addr
  SourceRight :: "node list"
  Groups :: "node list"
  Having :: node

record SelectStatementNode =
  Cores :: "addr list"
  Orders :: "node list"
  Limit :: node
  Offset :: node
  Combinator :: node

record store =
  relations :: "RelationNode list"
  inner_joins :: "JoinNode list"
  outer_joins :: "JoinNode list"
  cores :: "SelectCoreNode list"
  stmts :: "SelectStatementNode list"

definition empty_store :: store where
  "empty_store = \<lparr>relations = [], inner_joins = [], outer_joins = [], cores = [], stmts = []\<rparr>"

section \<open>Package nodes: constructors\<close>

text \<open>
  Modelled from the spec: \<^verbatim>\<open>nodes.Relation(name)\<close>, whose source file is not part of the
  development: a new relation node with that name, returned by pointer.
\<close>

definition nodes_Relation :: "string \<Rightarrow> store \<Rightarrow> addr \<times> store" where
  "nodes_Relation name h =
     (length (relations h), h\<lparr>relations := relations h @ [\<lparr>Name = name\<rparr>]\<rparr>)"

text \<open>
  Modelled from the spec: \<^verbatim>\<open>nodes.InnerJoin(left, right)\<close> and
  \<^verbatim>\<open>nodes.OuterJoin(left, right)\<close>, whose source file is not part of the development: a
  new join node with these two sides, returned by pointer. The two struct types are
  distinct, so each has its heap.
\<close>

definition nodes_InnerJoin :: "addr \<Rightarrow> node \<Rightarrow> store \<Rightarrow> node \<times> store" where
  "nodes_InnerJoin left right h =
     (InnerJoinPtr (length (inner_joins h)),
      h\<lparr>inner_joins := inner_joins h @ [\<lparr>JoinLeft = left, JoinRight = right\<rparr>]\<rparr>)"

definition nodes_OuterJoin :: "addr \<Rightarrow> node \<Rightarrow> store \<Rightarrow> node \<times> store" where
  "nodes_OuterJoin left right h =
     (OuterJoinPtr (length (outer_joins h)),
      h\<lparr>outer_joins := outer_joins h @ [\<lparr>JoinLeft = left, JoinRight = right\<rparr>]\<rparr>)"

text \<open>
  Modelled from the spec: \<^verbatim>\<open>nodes.SelectStatement(relation)\<close>, whose source file is not
  part of the development. The statement is "created with exactly one core referencing
  the initial relation"; every list of the new core and of the new statement is empty,
  Having, Limit, Offset and Combinator are nil, and the core's source has the relation
  on its left and no joins.
\<close>

definition nodes_SelectStatement :: "addr \<Rightarrow> store \<Rightarrow> addr \<times> store" where
  "nodes_SelectStatement relation h =
     (let core = \<lparr>Relation = relation, Projections = [], Wheres = [],
                  SourceLeft = relation, SourceRight = [], Groups = [], Having = GoNil\<rparr>;
          c = length (cores h);
          stmt = \<lparr>Cores = [c], Orders = [], Limit = GoNil, Offset = GoNil,
                  Combinator = GoNil\<rparr>
      in (length (stmts h), h\<lparr>cores := cores h @ [core], stmts := stmts h @ [stmt]\<rparr>))"

section \<open>table.go\<close>

text \<open>
  The function literal returned by \<^verbatim>\<open>Table\<close>, with its captured variable \<^verbatim>\<open>relation\<close> as
  first argument. It reads no store and writes none.
\<close>

definition Accessor_call :: "addr \<Rightarrow> node \<Rightarrow> node" where
  "Accessor_call relation name =
     (if is_string name then AttributeNode (ColumnNode name) relation
      else AttributeNode name relation)"

definition Table :: "string \<Rightarrow> store \<Rightarrow> node \<times> store" where
  "Table name h = (let (relation, h') = nodes_Relation name h in (AccessorFn relation, h'))"

text \<open>
  Modelled from the spec: the method \<^verbatim>\<open>Relation()\<close> of \<^verbatim>\<open>managers.Accessor\<close>, whose
  source file is not part of the development: it "extracts the bound Relation".
\<close>

definition Accessor_Relation :: "addr \<Rightarrow> addr" where
  "Accessor_Relation relation = relation"

section \<open>tree/managers/select_manager.go\<close>

text \<open>
  An engine key: a comparable Go value held in an \<^verbatim>\<open>interface{}\<close>, as a key of the map
  \<^verbatim>\<open>VISITORS\<close> is. Two keys are equal when their dynamic types and their values are:
  nil; a value of type \<^verbatim>\<open>string\<close>; an integer with the name of its integer type (so that
  \<^verbatim>\<open>int(1)\<close> and \<^verbatim>\<open>int64(1)\<close> are two keys); or any other comparable value (of a named
  string type, a bool, a pointer, a comparable struct), given by the name of its
  dynamic type and a number that tells the values of that type apart.
\<close>

datatype engine_key =
    NilKey
  | StringKey string
  | IntKey string int
  | OtherKey string nat

text \<open>
  The argument of \<^verbatim>\<open>Engine(engine interface{})\<close>: a comparable value, or a value of a type
  that Go cannot hash (a slice, a map, a func, or a struct or array holding one), for
  which indexing a map is a runtime panic. The \<^verbatim>\<open>engine\<close> field of the manager is
  unexported and is written by \<^verbatim>\<open>Engine\<close>, after the map was indexed with the value, and
  by \<^verbatim>\<open>ToSql\<close> only, so it holds a key.
\<close>

datatype engine_arg = Comparable engine_key | Unhashable nat

record SelectManager =
  Tree :: addr
  Context :: addr
  engine :: engine_key

text \<open>
  Modelled from the spec: the map \<^verbatim>\<open>VISITORS\<close> and the visitors in it, whose source
  files are not part of the development. The registry "maps an opaque engine key to a
  renderer exposing Accept(statement) -> (string, error)", and rendering is a read-only
  function of the tree: a visitor is a function of the store and of the address of the
  statement, and the Go error is \<open>None\<close> when nil. Indexing the map with a key that is
  not registered yields the nil visitor, and calling \<^verbatim>\<open>Accept\<close> on it is a runtime panic.
\<close>

type_synonym error = "string option"

type_synonym visitor = "store \<Rightarrow> addr \<Rightarrow> string \<times> error"

type_synonym registry = "engine_key \<rightharpoonup> visitor"

text \<open>
  Every method takes the manager and the store and returns the manager (the Go methods
  return \<^verbatim>\<open>self\<close>) with the new store, or panics. The manager itself is a value here:
  its three fields are all a method reads of it, and a call on a nil manager is not
  modelled. The methods \<^verbatim>\<open>Offset\<close>, \<^verbatim>\<open>Limit\<close>, \<^verbatim>\<open>Having\<close> and \<^verbatim>\<open>Union\<close> carry the suffix
  \<open>_op\<close>, their names being taken by fields and by a constant of the library.
\<close>

definition put_core :: "addr \<Rightarrow> SelectCoreNode \<Rightarrow> store \<Rightarrow> store" where
  "put_core c core h = h\<lparr>cores := (cores h)[c := core]\<rparr>"

definition put_stmt :: "addr \<Rightarrow> SelectStatementNode \<Rightarrow> store \<Rightarrow> store" where
  "put_stmt t stmt h = h\<lparr>stmts := (stmts h)[t := stmt]\<rparr>"

text \<open>The conversion \<^verbatim>\<open>if _, ok := x.(string); ok { x = nodes.Literal(x) }\<close>.\<close>

definition literal_of_string :: "node \<Rightarrow> node" where
  "literal_of_string x = (if is_string x then LiteralNode x else x)"

fun Project :: "node list \<Rightarrow> SelectManager \<Rightarrow> store \<Rightarrow> (SelectManager \<times> store) outcome" where
  "Project [] self h = Returns (self, h)"
| "Project (projection # projections) self h =
     (case deref (cores h) (Context self) of
        None \<Rightarrow> Panics
      | Some core \<Rightarrow>
          Project projections self
            (put_core (Context self)
               (core\<lparr>Projections := Projections core @ [literal_of_string projection]\<rparr>) h))"

definition Where :: "node \<Rightarrow> SelectManager \<Rightarrow> store \<Rightarrow> (SelectManager \<times> store) outcome" where
  "Where expr self h =
     (case deref (cores h) (Context self) of
        None \<Rightarrow> Panics
      | Some core \<Rightarrow>
          Returns (self, put_core (Context self)
            (core\<lparr>Wheres := Wheres core @ [GroupingNode (literal_of_string expr)]\<rparr>) h))"

definition Offset_op :: "int \<Rightarrow> SelectManager \<Rightarrow> store \<Rightarrow> (SelectManager \<times> store) outcome" where
  "Offset_op skip self h =
     (case deref (stmts h) (Tree self) of
        None \<Rightarrow> Panics
      | Some tree \<Rightarrow> Returns (self, put_stmt (Tree self) (tree\<lparr>Offset := OffsetNode skip\<rparr>) h))"

definition Limit_op :: "int \<Rightarrow> SelectManager \<Rightarrow> store \<Rightarrow> (SelectManager \<times> store) outcome" where
  "Limit_op take' self h =
     (case deref (stmts h) (Tree self) of
        None \<Rightarrow> Panics
      | Some tree \<Rightarrow> Returns (self, put_stmt (Tree self) (tree\<lparr>Limit := LimitNode take'\<rparr>) h))"

text \<open>
  \<^verbatim>\<open>InnerJoin\<close> and \<^verbatim>\<open>OuterJoin\<close>: the type switch has a case for an \<^verbatim>\<open>Accessor\<close>, a case
  for a \<^verbatim>\<open>*nodes.RelationNode\<close> and no default.
\<close>

definition append_join :: "node \<times> store \<Rightarrow> SelectManager \<Rightarrow> (SelectManager \<times> store) outcome" where
  "append_join js self =
     (case js of (join, h) \<Rightarrow>
        (case deref (cores h) (Context self) of
           None \<Rightarrow> Panics
         | Some core \<Rightarrow>
             Returns (self, put_core (Context self)
               (core\<lparr>SourceRight := SourceRight core @ [join]\<rparr>) h)))"

fun InnerJoin :: "node \<Rightarrow> SelectManager \<Rightarrow> store \<Rightarrow> (SelectManager \<times> store) outcome" where
  "InnerJoin (AccessorFn r) self h =
     append_join (nodes_InnerJoin (Accessor_Relation r) GoNil h) self"
| "InnerJoin (RelationPtr r) self h = append_join (nodes_InnerJoin r GoNil h) self"
| "InnerJoin table self h = Returns (self, h)"

fun OuterJoin :: "node \<Rightarrow> SelectManager \<Rightarrow> store \<Rightarrow> (SelectManager \<times> store) outcome" where
  "OuterJoin (AccessorFn r) self h =
     append_join (nodes_OuterJoin (Accessor_Relation r) GoNil h) self"
| "OuterJoin (RelationPtr r) self h = append_join (nodes_OuterJoin r GoNil h) self"
| "OuterJoin table self h = Returns (self, h)"

text \<open>
  \<^verbatim>\<open>On\<close>: returns at once when the join list is empty; otherwise switches on the type
  of the last entry and writes through the pointer.
\<close>

fun set_join_right :: "node \<Rightarrow> node \<Rightarrow> store \<Rightarrow> store outcome" where
  "set_join_right (InnerJoinPtr a) expr h =
     (case deref (inner_joins h) a of
        None \<Rightarrow> Panics
      | Some j \<Rightarrow> Returns (h\<lparr>inner_joins := (inner_joins h)[a := j\<lparr>JoinRight := OnNode expr\<rparr>]\<rparr>))"
| "set_join_right (OuterJoinPtr a) expr h =
     (case deref (outer_joins h) a of
        None \<Rightarrow> Panics
      | Some j \<Rightarrow> Returns (h\<lparr>outer_joins := (outer_joins h)[a := j\<lparr>JoinRight := OnNode expr\<rparr>]\<rparr>))"
| "set_join_right last_entry expr h = Returns h"

definition On :: "node \<Rightarrow> SelectManager \<Rightarrow> store \<Rightarrow> (SelectManager \<times> store) outcome" where
  "On expr self h =
     (case deref (cores h) (Context self) of
        None \<Rightarrow> Panics
      | Some core \<Rightarrow>
          (let joins = SourceRight core in
           if 0 = length joins then Returns (self, h)
           else (case set_join_right (joins ! (length joins - 1)) expr h of
                   Panics \<Rightarrow> Panics
                 | Returns h' \<Rightarrow> Returns (self, h'))))"

definition Order :: "node \<Rightarrow> SelectManager \<Rightarrow> store \<Rightarrow> (SelectManager \<times> store) outcome" where
  "Order expr self h =
     (case deref (stmts h) (Tree self) of
        None \<Rightarrow> Panics
      | Some tree \<Rightarrow>
          Returns (self, put_stmt (Tree self)
            (tree\<lparr>Orders := Orders tree @ [literal_of_string expr]\<rparr>) h))"

fun Group :: "node list \<Rightarrow> SelectManager \<Rightarrow> store \<Rightarrow> (SelectManager \<times> store) outcome" where
  "Group [] self h = Returns (self, h)"
| "Group (group' # groupings) self h =
     (case deref (cores h) (Context self) of
        None \<Rightarrow> Panics
      | Some core \<Rightarrow>
          Group groupings self
            (put_core (Context self)
               (core\<lparr>Groups := Groups core @ [literal_of_string group']\<rparr>) h))"

definition Having_op :: "node \<Rightarrow> SelectManager \<Rightarrow> store \<Rightarrow> (SelectManager \<times> store) outcome" where
  "Having_op expr self h =
     (case deref (cores h) (Context self) of
        None \<Rightarrow> Panics
      | Some core \<Rightarrow>
          Returns (self, put_core (Context self)
            (core\<lparr>Having := HavingNode (literal_of_string expr)\<rparr>) h))"

text \<open>
  \<^verbatim>\<open>Union\<close>, \<^verbatim>\<open>Intersect\<close> and \<^verbatim>\<open>Except\<close> differ in the node constructor only:
  \<^verbatim>\<open>self.Tree.Combinator = nodes.Union(self.Tree, manager.Tree)\<close>.
\<close>

definition set_Combinator ::
  "(addr \<Rightarrow> addr \<Rightarrow> node) \<Rightarrow> SelectManager \<Rightarrow> SelectManager \<Rightarrow> store \<Rightarrow>
   (SelectManager \<times> store) outcome" where
  "set_Combinator mk manager self h =
     (case deref (stmts h) (Tree self) of
        None \<Rightarrow> Panics
      | Some tree \<Rightarrow>
          Returns (self, put_stmt (Tree self)
            (tree\<lparr>Combinator := mk (Tree self) (Tree manager)\<rparr>) h))"

definition Union_op :: "SelectManager \<Rightarrow> SelectManager \<Rightarrow> store \<Rightarrow> (SelectManager \<times> store) outcome" where
  "Union_op manager self h = set_Combinator UnionNode manager self h"

definition Intersect :: "SelectManager \<Rightarrow> SelectManager \<Rightarrow> store \<Rightarrow> (SelectManager \<times> store) outcome" where
  "Intersect manager self h = set_Combinator IntersectNode manager self h"

definition Except :: "SelectManager \<Rightarrow> SelectManager \<Rightarrow> store \<Rightarrow> (SelectManager \<times> store) outcome" where
  "Except manager self h = set_Combinator ExceptNode manager self h"

text \<open>
  \<^verbatim>\<open>Engine\<close>: \<^verbatim>\<open>if _, ok := VISITORS[engine]; ok { self.engine = engine }\<close>. The index
  expression panics on an unhashable value before the presence flag is looked at.
\<close>

fun Engine :: "registry \<Rightarrow> engine_arg \<Rightarrow> SelectManager \<Rightarrow> SelectManager outcome" where
  "Engine VISITORS (Unhashable v) self = Panics"
| "Engine VISITORS (Comparable key) self =
     (case VISITORS key of None \<Rightarrow> Returns self | Some v \<Rightarrow> Returns (self\<lparr>engine := key\<rparr>))"

text \<open>The loop of \<^verbatim>\<open>ToSql\<close> over \<^verbatim>\<open>self.Tree.Cores\<close>, a slice of core pointers.\<close>

fun inject_star :: "addr list \<Rightarrow> store \<Rightarrow> store outcome" where
  "inject_star [] h = Returns h"
| "inject_star (c # cs) h =
     (case deref (cores h) c of
        None \<Rightarrow> Panics
      | Some core \<Rightarrow>
          if 0 = length (Projections core)
          then inject_star cs
                 (put_core c
                    (core\<lparr>Projections :=
                       Projections core @ [AttributeNode StarNode (Relation core)]\<rparr>) h)
          else inject_star cs h)"

definition default_engine :: "SelectManager \<Rightarrow> SelectManager" where
  "default_engine self =
     (if engine self = NilKey then self\<lparr>engine := StringKey ''to_sql''\<rparr> else self)"

definition ToSql ::
  "registry \<Rightarrow> SelectManager \<Rightarrow> store \<Rightarrow> ((string \<times> error) \<times> SelectManager \<times> store) outcome" where
  "ToSql VISITORS self h =
     (case deref (stmts h) (Tree self) of
        None \<Rightarrow> Panics
      | Some tree \<Rightarrow>
          (case inject_star (Cores tree) h of
             Panics \<Rightarrow> Panics
           | Returns h' \<Rightarrow>
               (let self' = default_engine self in
                case VISITORS (engine self') of
                  None \<Rightarrow> Panics
                | Some accept \<Rightarrow> Returns (accept h' (Tree self'), self', h'))))"

text \<open>\<^verbatim>\<open>Selection\<close>, the factory: \<^verbatim>\<open>selection.Context = selection.Tree.Cores[0]\<close>.\<close>

definition Selection :: "addr \<Rightarrow> store \<Rightarrow> (SelectManager \<times> store) outcome" where
  "Selection relation h =
     (case nodes_SelectStatement relation h of (tree, h') \<Rightarrow>
        (case deref (stmts h') tree of
           None \<Rightarrow> Panics
         | Some stmt \<Rightarrow>
             (case Cores stmt of
                [] \<Rightarrow> Panics
              | c # cs \<Rightarrow> Returns (\<lparr>Tree = tree, Context = c, engine = NilKey\<rparr>, h'))))"

section \<open>Derived notions used in the statements\<close>

text \<open>A chain of builder calls \<^verbatim>\<open>b.F(x).G(y)\<close>: a panic ends the chain.\<close>

definition chain ::
  "(SelectManager \<Rightarrow> store \<Rightarrow> (SelectManager \<times> store) outcome) \<Rightarrow>
   (SelectManager \<times> store) outcome \<Rightarrow> (SelectManager \<times> store) outcome" where
  "chain op r = (case r of Panics \<Rightarrow> Panics | Returns (self, h) \<Rightarrow> op self h)"

text \<open>What one pass of the loop of \<^verbatim>\<open>ToSql\<close> does to a core.\<close>

definition star_default :: "SelectCoreNode \<Rightarrow> SelectCoreNode" where
  "star_default core =
     (if Projections core = []
      then core\<lparr>Projections := [AttributeNode StarNode (Relation core)]\<rparr>
      else core)"

text \<open>
  The builder as \<^verbatim>\<open>Selection\<close> makes it and as every method keeps it: the tree is
  allocated, its cores are allocated, and the current core is one of them.
\<close>

definition valid_builder :: "store \<Rightarrow> SelectManager \<Rightarrow> bool" where
  "valid_builder h self =
     (case deref (stmts h) (Tree self) of
        None \<Rightarrow> False
      | Some tree \<Rightarrow>
          list_ex (\<lambda>c. c = Context self) (Cores tree) \<and>
          list_all (\<lambda>c. c < length (cores h)) (Cores tree))"

subsection \<open>A concrete builder for the examples\<close>

text \<open>
  A small renderer standing in for a registered visitor in the examples below: it
  prints the projections and the relation of each core of the statement.
\<close>

definition relation_name :: "store \<Rightarrow> addr \<Rightarrow> string" where
  "relation_name h r = (case deref (relations h) r of None \<Rightarrow> ''?'' | Some rel \<Rightarrow> Name rel)"

fun render :: "store \<Rightarrow> node \<Rightarrow> string" where
  "render h StarNode = ''*''"
| "render h (GoString s) = s"
| "render h (ColumnNode n) = render h n"
| "render h (LiteralNode n) = render h n"
| "render h (AttributeNode n r) = relation_name h r @ ''.'' @ render h n"
| "render h n = ''?''"

definition render_core :: "store \<Rightarrow> addr \<Rightarrow> string" where
  "render_core h c =
     (case deref (cores h) c of
        None \<Rightarrow> ''?''
      | Some core \<Rightarrow>
          ''SELECT '' @ concat (map (\<lambda>p. render h p @ '' '') (Projections core)) @
          ''FROM '' @ relation_name h (Relation core))"

definition example_visitor :: visitor where
  "example_visitor h t =
     (case deref (stmts h) t of
        None \<Rightarrow> ([], Some ''no statement'')
      | Some stmt \<Rightarrow> (concat (map (render_core h) (Cores stmt)), None))"

definition example_VISITORS :: registry where
  "example_VISITORS = [StringKey ''to_sql'' \<mapsto> example_visitor]"

text \<open>The store and the builder after \<^verbatim>\<open>Table("users")\<close> and \<^verbatim>\<open>Selection\<close> on its relation.\<close>

definition users_store :: store where
  "users_store =
     \<lparr>relations = [\<lparr>Name = ''users''\<rparr>], inner_joins = [], outer_joins = [],
      cores = [\<lparr>Relation = 0, Projections = [], Wheres = [], SourceLeft = 0,
                SourceRight = [], Groups = [], Having = GoNil\<rparr>],
      stmts = [\<lparr>Cores = [0], Orders = [], Limit = GoNil, Offset = GoNil,
                Combinator = GoNil\<rparr>]\<rparr>"

definition users_manager :: SelectManager where
  "users_manager = \<lparr>Tree = 0, Context = 0, engine = NilKey\<rparr>"

text \<open>
  The store after \<^verbatim>\<open>Table("users")\<close>, \<^verbatim>\<open>Selection\<close>, \<^verbatim>\<open>Table("orders")\<close> and \<^verbatim>\<open>Selection\<close>
  again, and the second builder.
\<close>

definition shop_store :: store where
  "shop_store =
     \<lparr>relations = [\<lparr>Name = ''users''\<rparr>, \<lparr>Name = ''orders''\<rparr>],
      inner_joins = [], outer_joins = [],
      cores = [\<lparr>Relation = 0, Projections = [], Wheres = [], SourceLeft = 0,
                SourceRight = [], Groups = [], Having = GoNil\<rparr>,
               \<lparr>Relation = 1, Projections = [], Wheres = [], SourceLeft = 1,
                SourceRight = [], Groups = [], Having = GoNil\<rparr>],
      stmts = [\<lparr>Cores = [0], Orders = [], Limit = GoNil, Offset = GoNil,
                Combinator = GoNil\<rparr>,
               \<lparr>Cores = [1], Orders = [], Limit = GoNil, Offset = GoNil,
                Combinator = GoNil\<rparr>]\<rparr>"

definition orders_manager :: SelectManager where
  "orders_manager = \<lparr>Tree = 1, Context = 1, engine = NilKey\<rparr>"

text \<open>
  The users builder's store with one inner and one outer join node allocated and a given
  join list in the core.
\<close>

definition with_joins :: "node list \<Rightarrow> store" where
  "with_joins joins =
     users_store\<lparr>inner_joins := [\<lparr>JoinLeft = 1, JoinRight = GoNil\<rparr>],
                  outer_joins := [\<lparr>JoinLeft = 1, JoinRight = GoNil\<rparr>],
                  cores := [(cores users_store ! 0)\<lparr>SourceRight := joins\<rparr>]\<rparr>"

section \<open>Dereferencing and the loop of ToSql\<close>

lemma deref_Some_iff: "deref heap a = Some x \<longleftrightarrow> a < length heap \<and> heap ! a = x"
  by (auto simp: deref_def)

lemma deref_None_iff: "deref heap a = None \<longleftrightarrow> \<not> a < length heap"
  by (simp add: deref_def)

lemma star_default_idem: "star_default (star_default core) = star_default core"
  by (simp add: star_default_def)

lemma star_default_nonempty: "Projections (star_default core) \<noteq> []"
  by (simp add: star_default_def)

lemma inject_star_step:
  "c < length (cores h) \<Longrightarrow>
   inject_star (c # cs) h = inject_star cs (put_core c (star_default (cores h ! c)) h)"
  by (simp add: deref_def star_default_def put_core_def)

lemma inject_star_frame:
  "inject_star cs h = Returns h' \<Longrightarrow>
   relations h' = relations h \<and> inner_joins h' = inner_joins h \<and>
   outer_joins h' = outer_joins h \<and> stmts h' = stmts h \<and>
   length (cores h') = length (cores h)"
proof (induction cs arbitrary: h)
  case Nil
  then show ?case by simp
next
  case (Cons c cs)
  then show ?case
    by (auto simp: put_core_def split: option.splits if_splits dest!: Cons.IH)
qed

lemma inject_star_valid:
  "inject_star cs h = Returns h' \<Longrightarrow> list_all (\<lambda>c. c < length (cores h)) cs"
proof (induction cs arbitrary: h)
  case Nil
  then show ?case by simp
next
  case (Cons c cs)
  then show ?case
    by (auto simp: put_core_def deref_Some_iff split: option.splits if_splits dest!: Cons.IH)
qed

lemma inject_star_total:
  "list_all (\<lambda>c. c < length (cores h)) cs \<Longrightarrow> \<exists>h'. inject_star cs h = Returns h'"
proof (induction cs arbitrary: h)
  case Nil
  then show ?case by simp
next
  case (Cons c cs)
  then show ?case
    by (simp add: deref_def put_core_def)
qed

lemma inject_star_cores:
  "inject_star cs h = Returns h' \<Longrightarrow> i < length (cores h) \<Longrightarrow>
   cores h' ! i = (if i \<in> set cs then star_default (cores h ! i) else cores h ! i)"
proof (induction cs arbitrary: h)
  case Nil
  then show ?case by simp
next
  case (Cons c cs)
  from Cons.prems(1) have c: "c < length (cores h)"
    by (auto simp: deref_Some_iff split: option.splits)
  let ?h1 = "put_core c (star_default (cores h ! c)) h"
  from Cons.prems(1) have run: "inject_star cs ?h1 = Returns h'"
    unfolding inject_star_step [OF c] .
  have len: "i < length (cores ?h1)"
    using Cons.prems(2) by (simp add: put_core_def)
  from Cons.IH [OF run len]
  show ?case
    using c Cons.prems(2) by (auto simp: put_core_def star_default_idem nth_list_update)
qed

lemma inject_star_noop:
  "list_all (\<lambda>c. c < length (cores h) \<and> Projections (cores h ! c) \<noteq> []) cs \<Longrightarrow>
   inject_star cs h = Returns h"
  by (induction cs) (auto simp: deref_def)

subsection \<open>Running ToSql\<close>

lemma default_engine_idem: "default_engine (default_engine self) = default_engine self"
  by (simp add: default_engine_def)

lemma default_engine_fields:
  "Tree (default_engine self) = Tree self \<and> Context (default_engine self) = Context self \<and>
   engine (default_engine self) = (if engine self = NilKey then StringKey ''to_sql'' else engine self)"
  by (simp add: default_engine_def)

lemma ToSql_run:
  assumes "deref (stmts h) (Tree self) = Some tree"
    and "list_all (\<lambda>c. c < length (cores h)) (Cores tree)"
    and "VISITORS (engine (default_engine self)) = Some accept"
  shows "\<exists>h'. inject_star (Cores tree) h = Returns h' \<and>
           ToSql VISITORS self h = Returns (accept h' (Tree self), default_engine self, h')"
proof -
  from inject_star_total [OF assms(2)] obtain h' where "inject_star (Cores tree) h = Returns h'" ..
  with assms(1,3) show ?thesis
    by (simp add: ToSql_def Let_def default_engine_fields)
qed

lemma ToSql_ReturnsD:
  assumes "ToSql VISITORS self h = Returns (r, self', h')"
  shows "\<exists>tree accept. deref (stmts h) (Tree self) = Some tree \<and>
           inject_star (Cores tree) h = Returns h' \<and>
           VISITORS (engine (default_engine self)) = Some accept \<and>
           self' = default_engine self \<and> r = accept h' (Tree self)"
  using assms
  by (auto simp: ToSql_def Let_def default_engine_fields split: option.splits outcome.splits)

section \<open>Claims about ToSql\<close>

text \<open>
  Claim C1 says that \<^verbatim>\<open>ToSql()\<close> gives the star projection to every core in the
  statement tree whose Projections list is empty. The loop ranges over
  \<^verbatim>\<open>self.Tree.Cores\<close> only. After \<^verbatim>\<open>users.Union(orders)\<close> the statement of \<open>orders\<close> is the
  right operand of the Combinator of the statement of \<open>users\<close>, so its core belongs to
  that tree; \<^verbatim>\<open>users.ToSql()\<close> gives the star to the core of \<open>users\<close> and leaves the core
  of \<open>orders\<close> with no projection.
\<close>

theorem ToSql_operand_cores_counterexample:
  "Union_op orders_manager users_manager shop_store =
     Returns (users_manager,
       shop_store\<lparr>stmts := [(stmts shop_store ! 0)\<lparr>Combinator := UnionNode 0 1\<rparr>,
                            stmts shop_store ! 1]\<rparr>) \<and>
   ToSql example_VISITORS users_manager
     (shop_store\<lparr>stmts := [(stmts shop_store ! 0)\<lparr>Combinator := UnionNode 0 1\<rparr>,
                          stmts shop_store ! 1]\<rparr>) =
     Returns ((''SELECT users.* FROM users'', None),
       users_manager\<lparr>engine := StringKey ''to_sql''\<rparr>,
       shop_store\<lparr>stmts := [(stmts shop_store ! 0)\<lparr>Combinator := UnionNode 0 1\<rparr>,
                            stmts shop_store ! 1],
                  cores := [(cores shop_store ! 0)\<lparr>Projections := [AttributeNode StarNode 0]\<rparr>,
                            cores shop_store ! 1]\<rparr>) \<and>
   Cores (stmts shop_store ! 1) = [1] \<and>
   Projections (cores shop_store ! 1) = []"
  by (simp add: Union_op_def set_Combinator_def put_stmt_def ToSql_def deref_def shop_store_def
      users_manager_def orders_manager_def example_VISITORS_def default_engine_def put_core_def
      example_visitor_def render_core_def relation_name_def Let_def)

text \<open>
  Claim C1, amended. When \<^verbatim>\<open>ToSql()\<close> is called on a builder whose tree and cores are
  allocated and whose effective engine is registered, every core in the Cores list of
  the builder's own statement (\<^verbatim>\<open>self.Tree.Cores\<close>) whose Projections list is empty gets
  \<open>Attribute(Star, core.Relation)\<close> appended to it before the visitor is dispatched, so
  that a builder with no \<^verbatim>\<open>Project\<close> call renders a star projection scoped to its
  relation. The cores of that list with a non-empty Projections list, and every core
  that is not in that list (those of the operand statements of a Combinator among
  them), are left unchanged by this step, and so are the statements.
\<close>

theorem ToSql_star_default:
  assumes "deref (stmts h) (Tree self) = Some tree"
    and "list_all (\<lambda>c. c < length (cores h)) (Cores tree)"
    and "VISITORS (engine (default_engine self)) = Some accept"
  shows "\<exists>h'. ToSql VISITORS self h = Returns (accept h' (Tree self), default_engine self, h') \<and>
           length (cores h') = length (cores h) \<and>
           (\<forall>c \<in> set (Cores tree).
              cores h' ! c =
                (if Projections (cores h ! c) = []
                 then (cores h ! c)\<lparr>Projections := [AttributeNode StarNode (Relation (cores h ! c))]\<rparr>
                 else cores h ! c)) \<and>
           (\<forall>c < length (cores h). c \<notin> set (Cores tree) \<longrightarrow> cores h' ! c = cores h ! c) \<and>
           stmts h' = stmts h"
proof -
  from ToSql_run [where VISITORS = VISITORS and accept = accept, OF assms] obtain h' where
    loop: "inject_star (Cores tree) h = Returns h'" and
    run: "ToSql VISITORS self h = Returns (accept h' (Tree self), default_engine self, h')"
    by blast
  have "cores h' ! c = star_default (cores h ! c)" if "c \<in> set (Cores tree)" for c
  proof -
    from that assms(2) have "c < length (cores h)"
      by (simp add: list_all_iff)
    from inject_star_cores [OF loop this] that show ?thesis by simp
  qed
  moreover have "cores h' ! c = cores h ! c" if "c < length (cores h)" "c \<notin> set (Cores tree)" for c
    using inject_star_cores [OF loop that(1)] that(2) by simp
  ultimately show ?thesis
    using run inject_star_frame [OF loop] by (auto simp: star_default_def)
qed

theorem ToSql_star_default_witness:
  "deref (stmts shop_store) (Tree users_manager) = Some (stmts shop_store ! 0) \<and>
   list_all (\<lambda>c. c < length (cores shop_store)) (Cores (stmts shop_store ! 0)) \<and>
   example_VISITORS (engine (default_engine users_manager)) = Some example_visitor \<and>
   (0::nat) \<in> set (Cores (stmts shop_store ! 0)) \<and> Projections (cores shop_store ! 0) = [] \<and>
   (1::nat) < length (cores shop_store) \<and> (1::nat) \<notin> set (Cores (stmts shop_store ! 0)) \<and>
   (\<exists>h'. ToSql example_VISITORS users_manager shop_store =
            Returns ((''SELECT users.* FROM users'', None), default_engine users_manager, h') \<and>
          Projections (cores h' ! 0) = [AttributeNode StarNode 0] \<and>
          cores h' ! 1 = cores shop_store ! 1)"
proof -
  have a: "deref (stmts shop_store) (Tree users_manager) = Some (stmts shop_store ! 0)"
    by (simp add: deref_def shop_store_def users_manager_def)
  have b: "list_all (\<lambda>c. c < length (cores shop_store)) (Cores (stmts shop_store ! 0))"
    by (simp add: shop_store_def)
  have c: "example_VISITORS (engine (default_engine users_manager)) = Some example_visitor"
    by (simp add: example_VISITORS_def default_engine_def users_manager_def)
  have d: "(0::nat) \<in> set (Cores (stmts shop_store ! 0))" "Projections (cores shop_store ! 0) = []"
    "(1::nat) < length (cores shop_store)" "(1::nat) \<notin> set (Cores (stmts shop_store ! 0))"
    "Relation (cores shop_store ! 0) = 0"
    by (simp_all add: shop_store_def)
  from ToSql_star_default [where VISITORS = example_VISITORS and accept = example_visitor, OF a b c]
  obtain h' where
    run: "ToSql example_VISITORS users_manager shop_store =
            Returns (example_visitor h' (Tree users_manager), default_engine users_manager, h')"
    and star: "\<forall>c \<in> set (Cores (stmts shop_store ! 0)).
              cores h' ! c =
                (if Projections (cores shop_store ! c) = []
                 then (cores shop_store ! c)\<lparr>Projections :=
                        [AttributeNode StarNode (Relation (cores shop_store ! c))]\<rparr>
                 else cores shop_store ! c)"
    and rest: "\<forall>c < length (cores shop_store).
                 c \<notin> set (Cores (stmts shop_store ! 0)) \<longrightarrow> cores h' ! c = cores shop_store ! c"
    by blast
  from star d have 0: "Projections (cores h' ! 0) = [AttributeNode StarNode 0]"
    by simp
  from rest d have 1: "cores h' ! 1 = cores shop_store ! 1"
    by blast
  have "ToSql example_VISITORS users_manager shop_store =
          Returns ((''SELECT users.* FROM users'', None), default_engine users_manager,
                   put_core 0 (star_default (cores shop_store ! 0)) shop_store)"
    by (simp add: ToSql_def deref_def shop_store_def users_manager_def example_VISITORS_def
        default_engine_def put_core_def star_default_def example_visitor_def render_core_def
        relation_name_def Let_def)
  with run have "ToSql example_VISITORS users_manager shop_store =
          Returns ((''SELECT users.* FROM users'', None), default_engine users_manager, h')"
    by simp
  with 0 1 a b c d show ?thesis by blast
qed

text \<open>
  Claim C3 says that \<^verbatim>\<open>ToSql()\<close> leaves the statement tree, every core's Projections and
  the engine selection exactly as they were. On the builder made by \<^verbatim>\<open>Selection\<close> for the
  relation of \<^verbatim>\<open>Table("users")\<close> it does not: the call writes the star attribute into
  the core's Projections and stores \<^verbatim>\<open>"to_sql"\<close> in the engine field.
\<close>

theorem ToSql_pure_counterexample:
  "ToSql example_VISITORS users_manager users_store =
     Returns ((''SELECT users.* FROM users'', None),
              users_manager\<lparr>engine := StringKey ''to_sql''\<rparr>,
              users_store\<lparr>cores := [(cores users_store ! 0)\<lparr>Projections := [AttributeNode StarNode 0]\<rparr>]\<rparr>) \<and>
   users_manager\<lparr>engine := StringKey ''to_sql''\<rparr> \<noteq> users_manager \<and>
   users_store\<lparr>cores := [(cores users_store ! 0)\<lparr>Projections := [AttributeNode StarNode 0]\<rparr>]\<rparr>
     \<noteq> users_store"
  by (simp add: ToSql_def deref_def users_store_def users_manager_def example_VISITORS_def
      default_engine_def put_core_def example_visitor_def render_core_def
      relation_name_def Let_def)

text \<open>
  Claim C3, amended. A call of \<^verbatim>\<open>ToSql()\<close> on a builder whose tree and cores are
  allocated and whose effective engine is registered returns, and changes exactly this:
  in every core of \<^verbatim>\<open>self.Tree.Cores\<close> whose Projections list was empty the list becomes
  \<open>[Attribute(Star, core.Relation)]\<close>, and an engine field that was nil becomes
  \<^verbatim>\<open>"to_sql"\<close>. The relations, the join nodes, the statements (Cores, Orders, Limit,
  Offset, Combinator), every other core, every other field of the touched cores, and
  the builder's Tree and Context are what they were before the call.
\<close>

theorem ToSql_frame:
  assumes "deref (stmts h) (Tree self) = Some tree"
    and "list_all (\<lambda>c. c < length (cores h)) (Cores tree)"
    and "VISITORS (engine (default_engine self)) = Some accept"
  shows "\<exists>h'. ToSql VISITORS self h =
             Returns (accept h' (Tree self),
                      self\<lparr>engine := (if engine self = NilKey then StringKey ''to_sql''
                                       else engine self)\<rparr>, h') \<and>
           relations h' = relations h \<and> inner_joins h' = inner_joins h \<and>
           outer_joins h' = outer_joins h \<and> stmts h' = stmts h \<and>
           length (cores h') = length (cores h) \<and>
           (\<forall>c < length (cores h).
              cores h' ! c =
                (if c \<in> set (Cores tree) \<and> Projections (cores h ! c) = []
                 then (cores h ! c)\<lparr>Projections := [AttributeNode StarNode (Relation (cores h ! c))]\<rparr>
                 else cores h ! c))"
proof -
  from ToSql_run [where VISITORS = VISITORS and accept = accept, OF assms] obtain h' where
    loop: "inject_star (Cores tree) h = Returns h'" and
    run: "ToSql VISITORS self h = Returns (accept h' (Tree self), default_engine self, h')"
    by blast
  have self': "default_engine self =
      self\<lparr>engine := (if engine self = NilKey then StringKey ''to_sql'' else engine self)\<rparr>"
    by (simp add: default_engine_def)
  have "cores h' ! c =
          (if c \<in> set (Cores tree) \<and> Projections (cores h ! c) = []
           then (cores h ! c)\<lparr>Projections := [AttributeNode StarNode (Relation (cores h ! c))]\<rparr>
           else cores h ! c)" if "c < length (cores h)" for c
    using inject_star_cores [OF loop that] by (simp add: star_default_def)
  with run self' inject_star_frame [OF loop] show ?thesis
    by simp
qed

theorem ToSql_frame_witness:
  "deref (stmts users_store) (Tree users_manager) = Some (stmts users_store ! 0) \<and>
   list_all (\<lambda>c. c < length (cores users_store)) (Cores (stmts users_store ! 0)) \<and>
   example_VISITORS (engine (default_engine users_manager)) = Some example_visitor \<and>
   (\<exists>h'. ToSql example_VISITORS users_manager users_store =
            Returns (example_visitor h' 0, users_manager\<lparr>engine := StringKey ''to_sql''\<rparr>, h') \<and>
          relations h' = relations users_store \<and> stmts h' = stmts users_store \<and>
          cores h' = [(cores users_store ! 0)\<lparr>Projections := [AttributeNode StarNode 0]\<rparr>])"
proof -
  have a: "deref (stmts users_store) (Tree users_manager) = Some (stmts users_store ! 0)"
    by (simp add: deref_def users_store_def users_manager_def)
  have b: "list_all (\<lambda>c. c < length (cores users_store)) (Cores (stmts users_store ! 0))"
    by (simp add: users_store_def)
  have c: "example_VISITORS (engine (default_engine users_manager)) = Some example_visitor"
    by (simp add: example_VISITORS_def default_engine_def users_manager_def)
  from ToSql_frame [where VISITORS = example_VISITORS and accept = example_visitor, OF a b c]
  obtain h' where
    run: "ToSql example_VISITORS users_manager users_store =
            Returns (example_visitor h' 0, users_manager\<lparr>engine := StringKey ''to_sql''\<rparr>, h')"
    and frame: "relations h' = relations users_store" "stmts h' = stmts users_store"
    and len: "length (cores h') = length (cores users_store)"
    and core: "cores h' ! 0 = (cores users_store ! 0)\<lparr>Projections := [AttributeNode StarNode 0]\<rparr>"
    by (auto simp: users_store_def users_manager_def)
  from len have "length (cores h') = 1"
    by (simp add: users_store_def)
  then have "cores h' = [cores h' ! 0]"
    by (cases "cores h'") simp_all
  with core have "cores h' = [(cores users_store ! 0)\<lparr>Projections := [AttributeNode StarNode 0]\<rparr>]"
    by simp
  with run frame a b c show ?thesis by blast
qed

text \<open>
  Claim C4. Two consecutive calls of \<^verbatim>\<open>ToSql()\<close> with nothing in between, on a builder
  whose tree and cores are allocated and whose effective engine is registered, both
  return, and they return the same string and the same error; the second call finds and
  leaves the builder and the store as the first call left them.
\<close>

theorem ToSql_twice:
  assumes "deref (stmts h) (Tree self) = Some tree"
    and "list_all (\<lambda>c. c < length (cores h)) (Cores tree)"
    and "VISITORS (engine (default_engine self)) = Some accept"
  shows "\<exists>r self' h'. ToSql VISITORS self h = Returns (r, self', h') \<and>
           ToSql VISITORS self' h' = Returns (r, self', h')"
proof -
  from ToSql_run [where VISITORS = VISITORS and accept = accept, OF assms] obtain h' where
    loop: "inject_star (Cores tree) h = Returns h'" and
    run: "ToSql VISITORS self h = Returns (accept h' (Tree self), default_engine self, h')"
    by blast
  note frame = inject_star_frame [OF loop]
  have "c < length (cores h') \<and> Projections (cores h' ! c) \<noteq> []" if "c \<in> set (Cores tree)" for c
  proof -
    from that assms(2) have c: "c < length (cores h)"
      by (simp add: list_all_iff)
    from inject_star_cores [OF loop c] that have "cores h' ! c = star_default (cores h ! c)"
      by simp
    with c frame show ?thesis
      by (simp add: star_default_nonempty)
  qed
  then have "inject_star (Cores tree) h' = Returns h'"
    by (intro inject_star_noop) (simp add: list_all_iff)
  moreover from assms(1) frame have "deref (stmts h') (Tree (default_engine self)) = Some tree"
    by (simp add: default_engine_fields)
  ultimately have "ToSql VISITORS (default_engine self) h' =
      Returns (accept h' (Tree self), default_engine self, h')"
    using assms(3) by (simp add: ToSql_def Let_def default_engine_idem default_engine_fields)
  with run show ?thesis by blast
qed

theorem ToSql_twice_witness:
  "deref (stmts users_store) (Tree users_manager) = Some (stmts users_store ! 0) \<and>
   list_all (\<lambda>c. c < length (cores users_store)) (Cores (stmts users_store ! 0)) \<and>
   example_VISITORS (engine (default_engine users_manager)) = Some example_visitor \<and>
   (\<exists>r self' h'. ToSql example_VISITORS users_manager users_store = Returns (r, self', h') \<and>
      ToSql example_VISITORS self' h' = Returns (r, self', h') \<and>
      r = (''SELECT users.* FROM users'', None))"
proof -
  have a: "deref (stmts users_store) (Tree users_manager) = Some (stmts users_store ! 0)"
    by (simp add: deref_def users_store_def users_manager_def)
  have b: "list_all (\<lambda>c. c < length (cores users_store)) (Cores (stmts users_store ! 0))"
    by (simp add: users_store_def)
  have c: "example_VISITORS (engine (default_engine users_manager)) = Some example_visitor"
    by (simp add: example_VISITORS_def default_engine_def users_manager_def)
  from ToSql_twice [where VISITORS = example_VISITORS and accept = example_visitor, OF a b c]
  obtain r self' h' where
    run: "ToSql example_VISITORS users_manager users_store = Returns (r, self', h')"
    and again: "ToSql example_VISITORS self' h' = Returns (r, self', h')"
    by blast
  have "ToSql example_VISITORS users_manager users_store =
          Returns ((''SELECT users.* FROM users'', None), default_engine users_manager,
                   put_core 0 (star_default (cores users_store ! 0)) users_store)"
    by (simp add: ToSql_def deref_def users_store_def users_manager_def example_VISITORS_def
        default_engine_def put_core_def star_default_def example_visitor_def render_core_def
        relation_name_def Let_def)
  with run have "r = (''SELECT users.* FROM users'', None)" by simp
  with run again a b c show ?thesis by blast
qed

section \<open>Claims about the engine\<close>

subsection \<open>An unregistered effective key\<close>

lemma ToSql_unregistered:
  "VISITORS (engine (default_engine self)) = None \<Longrightarrow> ToSql VISITORS self h = Panics"
  by (simp add: ToSql_def Let_def split: option.splits outcome.splits)

text \<open>
  Claim C5 says that a \<^verbatim>\<open>ToSql()\<close> call whose effective engine key is not registered
  returns an error value rather than panicking. \<^verbatim>\<open>ToSql\<close> indexes \<^verbatim>\<open>VISITORS\<close> without
  looking at the presence flag and calls \<^verbatim>\<open>Accept\<close> on what it gets: with a registry that
  lacks \<^verbatim>\<open>"to_sql"\<close> the call on a fresh builder panics, and so does the call on a builder
  that holds the key \<^verbatim>\<open>"mysql"\<close> with a registry that has \<^verbatim>\<open>"to_sql"\<close> only. The claim also
  says that \<^verbatim>\<open>Engine(key)\<close> is a silent no-op for every key that is not registered; for a
  value that Go cannot hash the map index panics.
\<close>

theorem ToSql_unregistered_counterexample:
  "ToSql Map.empty users_manager users_store = Panics \<and>
   ToSql example_VISITORS (users_manager\<lparr>engine := StringKey ''mysql''\<rparr>) users_store = Panics \<and>
   Engine example_VISITORS (Unhashable 0) users_manager = Panics"
  by (simp add: ToSql_def deref_def users_store_def users_manager_def example_VISITORS_def
      default_engine_def put_core_def Let_def)

text \<open>
  Claim C5, amended. \<^verbatim>\<open>Engine(key)\<close> with a comparable key that is not present in the
  visitor registry leaves the builder, and so the stored engine, unchanged (a silent
  no-op), and with a registered key it stores the key; with a value of an unhashable
  type it panics. A \<^verbatim>\<open>ToSql()\<close> call whose effective engine key (the stored key, or
  \<^verbatim>\<open>"to_sql"\<close> when none is stored) is not registered substitutes no default and returns
  neither a string nor an error value: it panics. A call whose effective key is
  registered (tree and cores allocated) returns the string and the error of the visitor
  registered under that key.
\<close>

theorem Engine_guard:
  "(VISITORS key = None \<longrightarrow> Engine VISITORS (Comparable key) self = Returns self) \<and>
   (VISITORS key \<noteq> None \<longrightarrow>
      Engine VISITORS (Comparable key) self = Returns (self\<lparr>engine := key\<rparr>)) \<and>
   Engine VISITORS (Unhashable v) self = Panics \<and>
   (VISITORS (if engine self = NilKey then StringKey ''to_sql'' else engine self) = None \<longrightarrow>
      ToSql VISITORS self h = Panics) \<and>
   (VISITORS (if engine self = NilKey then StringKey ''to_sql'' else engine self) = Some accept \<and>
    deref (stmts h) (Tree self) = Some tree \<and>
    list_all (\<lambda>c. c < length (cores h)) (Cores tree) \<longrightarrow>
      (\<exists>h'. ToSql VISITORS self h =
         Returns (accept h' (Tree self),
                  self\<lparr>engine := (if engine self = NilKey then StringKey ''to_sql''
                                   else engine self)\<rparr>, h')))"
proof (intro conjI impI)
  show "Engine VISITORS (Comparable key) self = Returns self" if "VISITORS key = None"
    using that by simp
  show "Engine VISITORS (Comparable key) self = Returns (self\<lparr>engine := key\<rparr>)"
    if "VISITORS key \<noteq> None"
    using that by auto
  show "Engine VISITORS (Unhashable v) self = Panics"
    by simp
  show "ToSql VISITORS self h = Panics"
    if "VISITORS (if engine self = NilKey then StringKey ''to_sql'' else engine self) = None"
    using that by (intro ToSql_unregistered) (simp add: default_engine_fields)
next
  assume pre: "VISITORS (if engine self = NilKey then StringKey ''to_sql'' else engine self) =
      Some accept \<and>
    deref (stmts h) (Tree self) = Some tree \<and>
    list_all (\<lambda>c. c < length (cores h)) (Cores tree)"
  have self': "default_engine self =
      self\<lparr>engine := (if engine self = NilKey then StringKey ''to_sql'' else engine self)\<rparr>"
    by (simp add: default_engine_def)
  from pre have tree: "deref (stmts h) (Tree self) = Some tree"
    and cores: "list_all (\<lambda>c. c < length (cores h)) (Cores tree)"
    and accept: "VISITORS (engine (default_engine self)) = Some accept"
    by (simp_all add: default_engine_fields)
  from ToSql_run [where VISITORS = VISITORS and accept = accept, OF tree cores accept]
  obtain h' where
    "ToSql VISITORS self h = Returns (accept h' (Tree self), default_engine self, h')"
    by blast
  then show "\<exists>h'. ToSql VISITORS self h =
         Returns (accept h' (Tree self),
                  self\<lparr>engine := (if engine self = NilKey then StringKey ''to_sql''
                                   else engine self)\<rparr>, h')"
    unfolding self' ..
qed

theorem Engine_guard_witness:
  "example_VISITORS (StringKey ''mysql'') = None \<and>
   Engine example_VISITORS (Comparable (StringKey ''mysql'')) users_manager = Returns users_manager \<and>
   example_VISITORS (IntKey ''int64'' 1) = None \<and>
   Engine example_VISITORS (Comparable (IntKey ''int64'' 1)) users_manager = Returns users_manager \<and>
   example_VISITORS (StringKey ''to_sql'') \<noteq> None \<and>
   Engine example_VISITORS (Comparable (StringKey ''to_sql'')) users_manager =
     Returns (users_manager\<lparr>engine := StringKey ''to_sql''\<rparr>) \<and>
   ToSql example_VISITORS (users_manager\<lparr>engine := StringKey ''mysql''\<rparr>) users_store = Panics \<and>
   example_VISITORS (StringKey ''to_sql'') = Some example_visitor \<and>
   deref (stmts users_store) (Tree users_manager) = Some (stmts users_store ! 0) \<and>
   list_all (\<lambda>c. c < length (cores users_store)) (Cores (stmts users_store ! 0)) \<and>
   (\<exists>h'. ToSql example_VISITORS users_manager users_store =
      Returns (example_visitor h' 0, users_manager\<lparr>engine := StringKey ''to_sql''\<rparr>, h'))"
proof -
  have a: "example_VISITORS (StringKey ''mysql'') = None"
    "example_VISITORS (IntKey ''int64'' 1) = None"
    by (simp_all add: example_VISITORS_def)
  have b: "example_VISITORS (StringKey ''to_sql'') \<noteq> None"
    "example_VISITORS (StringKey ''to_sql'') = Some example_visitor"
    by (simp_all add: example_VISITORS_def)
  have d: "deref (stmts users_store) (Tree users_manager) = Some (stmts users_store ! 0)"
    by (simp add: deref_def users_store_def users_manager_def)
  have e: "list_all (\<lambda>c. c < length (cores users_store)) (Cores (stmts users_store ! 0))"
    by (simp add: users_store_def)
  have f: "engine users_manager = NilKey" "Tree users_manager = 0"
    by (simp_all add: users_manager_def)
  from Engine_guard [where VISITORS = example_VISITORS and key = "StringKey ''mysql''"
      and self = users_manager] a
  have 1: "Engine example_VISITORS (Comparable (StringKey ''mysql'')) users_manager =
      Returns users_manager"
    by blast
  from Engine_guard [where VISITORS = example_VISITORS and key = "IntKey ''int64'' 1"
      and self = users_manager] a
  have 2: "Engine example_VISITORS (Comparable (IntKey ''int64'' 1)) users_manager =
      Returns users_manager"
    by blast
  from Engine_guard [where VISITORS = example_VISITORS and key = "StringKey ''to_sql''"
      and self = users_manager] b
  have 3: "Engine example_VISITORS (Comparable (StringKey ''to_sql'')) users_manager =
     Returns (users_manager\<lparr>engine := StringKey ''to_sql''\<rparr>)"
    by blast
  from Engine_guard [where VISITORS = example_VISITORS
      and self = "users_manager\<lparr>engine := StringKey ''mysql''\<rparr>" and h = users_store] a
  have 4: "ToSql example_VISITORS (users_manager\<lparr>engine := StringKey ''mysql''\<rparr>) users_store =
      Panics"
    by simp
  from Engine_guard [where VISITORS = example_VISITORS and self = users_manager
      and h = users_store and accept = example_visitor and tree = "stmts users_store ! 0"]
    b d e
  have 5: "\<exists>h'. ToSql example_VISITORS users_manager users_store =
      Returns (example_visitor h' 0, users_manager\<lparr>engine := StringKey ''to_sql''\<rparr>, h')"
    by (simp add: f)
  from a b d e 1 2 3 4 5 show ?thesis by blast
qed

section \<open>Claims about joins\<close>

subsection \<open>What the join methods return\<close>

lemma InnerJoin_Returns:
  assumes "deref (cores h) (Context self) = Some core"
    and "table = AccessorFn r \<or> table = RelationPtr r"
  shows "InnerJoin table self h =
        Returns (self,
          h\<lparr>inner_joins := inner_joins h @ [\<lparr>JoinLeft = r, JoinRight = GoNil\<rparr>],
            cores := (cores h)[Context self :=
              core\<lparr>SourceRight := SourceRight core @ [InnerJoinPtr (length (inner_joins h))]\<rparr>]\<rparr>)"
  using assms
  by (auto simp: nodes_InnerJoin_def Accessor_Relation_def append_join_def put_core_def)

lemma OuterJoin_Returns:
  assumes "deref (cores h) (Context self) = Some core"
    and "table = AccessorFn r \<or> table = RelationPtr r"
  shows "OuterJoin table self h =
        Returns (self,
          h\<lparr>outer_joins := outer_joins h @ [\<lparr>JoinLeft = r, JoinRight = GoNil\<rparr>],
            cores := (cores h)[Context self :=
              core\<lparr>SourceRight := SourceRight core @ [OuterJoinPtr (length (outer_joins h))]\<rparr>]\<rparr>)"
  using assms
  by (auto simp: nodes_OuterJoin_def Accessor_Relation_def append_join_def put_core_def)

lemma Join_other:
  assumes "\<forall>r. table \<noteq> AccessorFn r \<and> table \<noteq> RelationPtr r"
  shows "InnerJoin table self h = Returns (self, h)" and "OuterJoin table self h = Returns (self, h)"
  using assms by (cases table; simp)+

lemma On_inner:
  assumes "deref (cores h) (Context self) = Some core"
    and "SourceRight core \<noteq> []"
    and "last (SourceRight core) = InnerJoinPtr a"
    and "deref (inner_joins h) a = Some j"
  shows "On expr self h =
     Returns (self, h\<lparr>inner_joins := (inner_joins h)[a := j\<lparr>JoinRight := OnNode expr\<rparr>]\<rparr>)"
  using assms by (simp add: On_def Let_def last_conv_nth)

lemma On_outer:
  assumes "deref (cores h) (Context self) = Some core"
    and "SourceRight core \<noteq> []"
    and "last (SourceRight core) = OuterJoinPtr a"
    and "deref (outer_joins h) a = Some j"
  shows "On expr self h =
     Returns (self, h\<lparr>outer_joins := (outer_joins h)[a := j\<lparr>JoinRight := OnNode expr\<rparr>]\<rparr>)"
  using assms by (simp add: On_def Let_def last_conv_nth)

lemma set_join_right_other:
  "\<forall>a. n \<noteq> InnerJoinPtr a \<and> n \<noteq> OuterJoinPtr a \<Longrightarrow> set_join_right n expr h = Returns h"
  by (cases n) simp_all

lemma On_noop:
  assumes "deref (cores h) (Context self) = Some core"
    and "SourceRight core = [] \<or>
         (\<forall>a. last (SourceRight core) \<noteq> InnerJoinPtr a \<and> last (SourceRight core) \<noteq> OuterJoinPtr a)"
  shows "On expr self h = Returns (self, h)"
proof (cases "SourceRight core = []")
  case True
  with assms(1) show ?thesis by (simp add: On_def)
next
  case False
  with assms(2) have "set_join_right (last (SourceRight core)) expr h = Returns h"
    by (intro set_join_right_other) simp
  with False assms(1) show ?thesis
    by (simp add: On_def Let_def last_conv_nth)
qed

text \<open>
  Claim C2. On a builder whose current core is allocated, \<^verbatim>\<open>On(expr)\<close> sets the right
  side of the join that the last entry of the current core's join list points to (the
  most recently appended one) to an On node wrapping \<open>expr\<close> and changes nothing else;
  it returns the builder and the store unchanged when the join list is empty or its
  last entry is neither an InnerJoin nor an OuterJoin node; and after
  \<^verbatim>\<open>InnerJoin(T1).InnerJoin(T2).On(expr)\<close> the join list has two new entries, the join of
  \<open>T1\<close> with a nil right side and the join of \<open>T2\<close> with the On node.
\<close>

theorem On_last_join:
  "(deref (cores h) (Context self) = Some core \<and> SourceRight core \<noteq> [] \<and>
    last (SourceRight core) = InnerJoinPtr a \<and> deref (inner_joins h) a = Some j \<longrightarrow>
      On expr self h =
        Returns (self, h\<lparr>inner_joins := (inner_joins h)[a := j\<lparr>JoinRight := OnNode expr\<rparr>]\<rparr>)) \<and>
   (deref (cores h) (Context self) = Some core \<and> SourceRight core \<noteq> [] \<and>
    last (SourceRight core) = OuterJoinPtr a \<and> deref (outer_joins h) a = Some j \<longrightarrow>
      On expr self h =
        Returns (self, h\<lparr>outer_joins := (outer_joins h)[a := j\<lparr>JoinRight := OnNode expr\<rparr>]\<rparr>)) \<and>
   (deref (cores h) (Context self) = Some core \<and>
    (SourceRight core = [] \<or>
     (\<forall>a. last (SourceRight core) \<noteq> InnerJoinPtr a \<and> last (SourceRight core) \<noteq> OuterJoinPtr a)) \<longrightarrow>
      On expr self h = Returns (self, h)) \<and>
   (deref (cores h) (Context self) = Some core \<and>
    (T1 = AccessorFn r1 \<or> T1 = RelationPtr r1) \<and> (T2 = AccessorFn r2 \<or> T2 = RelationPtr r2) \<longrightarrow>
      chain (On expr) (chain (InnerJoin T2) (InnerJoin T1 self h)) =
        Returns (self,
          h\<lparr>inner_joins := inner_joins h @
               [\<lparr>JoinLeft = r1, JoinRight = GoNil\<rparr>, \<lparr>JoinLeft = r2, JoinRight = OnNode expr\<rparr>],
            cores := (cores h)[Context self :=
               core\<lparr>SourceRight := SourceRight core @
                 [InnerJoinPtr (length (inner_joins h)),
                  InnerJoinPtr (Suc (length (inner_joins h)))]\<rparr>]\<rparr>))"
proof (intro conjI impI)
  assume pre: "deref (cores h) (Context self) = Some core \<and>
    (T1 = AccessorFn r1 \<or> T1 = RelationPtr r1) \<and> (T2 = AccessorFn r2 \<or> T2 = RelationPtr r2)"
  let ?n = "length (inner_joins h)"
  let ?core1 = "core\<lparr>SourceRight := SourceRight core @ [InnerJoinPtr ?n]\<rparr>"
  let ?h1 = "h\<lparr>inner_joins := inner_joins h @ [\<lparr>JoinLeft = r1, JoinRight = GoNil\<rparr>],
               cores := (cores h)[Context self := ?core1]\<rparr>"
  let ?core2 = "?core1\<lparr>SourceRight := SourceRight ?core1 @ [InnerJoinPtr (length (inner_joins ?h1))]\<rparr>"
  let ?h2 = "?h1\<lparr>inner_joins := inner_joins ?h1 @ [\<lparr>JoinLeft = r2, JoinRight = GoNil\<rparr>],
               cores := (cores ?h1)[Context self := ?core2]\<rparr>"
  from pre have c: "Context self < length (cores h)"
    by (simp add: deref_Some_iff)
  from pre have 1: "InnerJoin T1 self h = Returns (self, ?h1)"
    by (intro InnerJoin_Returns) simp_all
  from c have d1: "deref (cores ?h1) (Context self) = Some ?core1"
    by (simp add: deref_def)
  from pre have 2: "InnerJoin T2 self ?h1 = Returns (self, ?h2)"
    by (intro InnerJoin_Returns [OF d1]) simp
  from c have d2: "deref (cores ?h2) (Context self) = Some ?core2"
    by (simp add: deref_def)
  have 3: "On expr self ?h2 =
     Returns (self, ?h2\<lparr>inner_joins := (inner_joins ?h2)[Suc ?n :=
        \<lparr>JoinLeft = r2, JoinRight = GoNil\<rparr>\<lparr>JoinRight := OnNode expr\<rparr>]\<rparr>)"
    by (rule On_inner [OF d2]) (simp_all add: deref_def nth_append)
  from 1 2 3 c
  show "chain (On expr) (chain (InnerJoin T2) (InnerJoin T1 self h)) =
        Returns (self,
          h\<lparr>inner_joins := inner_joins h @
               [\<lparr>JoinLeft = r1, JoinRight = GoNil\<rparr>, \<lparr>JoinLeft = r2, JoinRight = OnNode expr\<rparr>],
            cores := (cores h)[Context self :=
               core\<lparr>SourceRight := SourceRight core @
                 [InnerJoinPtr (length (inner_joins h)),
                  InnerJoinPtr (Suc (length (inner_joins h)))]\<rparr>]\<rparr>)"
    by (simp add: chain_def list_update_append)
qed (simp_all add: On_inner On_outer On_noop)

theorem On_last_join_witness:
  "deref (cores users_store) (Context users_manager) = Some (cores users_store ! 0) \<and>
   SourceRight (cores users_store ! 0) = [] \<and>
   On (GoString ''a = b'') users_manager users_store = Returns (users_manager, users_store) \<and>
   chain (On (GoString ''a = b''))
     (chain (InnerJoin (RelationPtr 2)) (InnerJoin (AccessorFn 1) users_manager users_store)) =
     Returns (users_manager,
       users_store\<lparr>inner_joins :=
           [\<lparr>JoinLeft = 1, JoinRight = GoNil\<rparr>,
            \<lparr>JoinLeft = 2, JoinRight = OnNode (GoString ''a = b'')\<rparr>],
         cores := [(cores users_store ! 0)\<lparr>SourceRight := [InnerJoinPtr 0, InnerJoinPtr 1]\<rparr>]\<rparr>) \<and>
   On (GoString ''a = b'') users_manager (with_joins [OuterJoinPtr 0, InnerJoinPtr 0]) =
     Returns (users_manager,
       (with_joins [OuterJoinPtr 0, InnerJoinPtr 0])
         \<lparr>inner_joins := [\<lparr>JoinLeft = 1, JoinRight = OnNode (GoString ''a = b'')\<rparr>]\<rparr>) \<and>
   On (GoString ''a = b'') users_manager (with_joins [InnerJoinPtr 0, OuterJoinPtr 0]) =
     Returns (users_manager,
       (with_joins [InnerJoinPtr 0, OuterJoinPtr 0])
         \<lparr>outer_joins := [\<lparr>JoinLeft = 1, JoinRight = OnNode (GoString ''a = b'')\<rparr>]\<rparr>) \<and>
   On (GoString ''a = b'') users_manager (with_joins [InnerJoinPtr 0, GoString ''orders'']) =
     Returns (users_manager, with_joins [InnerJoinPtr 0, GoString ''orders''])"
proof -
  have a: "deref (cores users_store) (Context users_manager) = Some (cores users_store ! 0)"
    by (simp add: deref_def users_store_def users_manager_def)
  have b: "SourceRight (cores users_store ! 0) = []"
    by (simp add: users_store_def)
  note inst = On_last_join [where h = users_store and self = users_manager
      and core = "cores users_store ! 0" and expr = "GoString ''a = b''"
      and ?T1.0 = "AccessorFn 1" and ?r1.0 = 1 and ?T2.0 = "RelationPtr 2" and ?r2.0 = 2]
  from inst a b have 1:
    "On (GoString ''a = b'') users_manager users_store = Returns (users_manager, users_store)"
    by blast
  from inst a have "chain (On (GoString ''a = b''))
     (chain (InnerJoin (RelationPtr 2)) (InnerJoin (AccessorFn 1) users_manager users_store)) =
     Returns (users_manager,
          users_store\<lparr>inner_joins := inner_joins users_store @
               [\<lparr>JoinLeft = 1, JoinRight = GoNil\<rparr>,
                \<lparr>JoinLeft = 2, JoinRight = OnNode (GoString ''a = b'')\<rparr>],
            cores := (cores users_store)[Context users_manager :=
               (cores users_store ! 0)\<lparr>SourceRight := SourceRight (cores users_store ! 0) @
                 [InnerJoinPtr (length (inner_joins users_store)),
                  InnerJoinPtr (Suc (length (inner_joins users_store)))]\<rparr>]\<rparr>)"
    by blast
  then have 2: "chain (On (GoString ''a = b''))
     (chain (InnerJoin (RelationPtr 2)) (InnerJoin (AccessorFn 1) users_manager users_store)) =
     Returns (users_manager,
       users_store\<lparr>inner_joins :=
           [\<lparr>JoinLeft = 1, JoinRight = GoNil\<rparr>,
            \<lparr>JoinLeft = 2, JoinRight = OnNode (GoString ''a = b'')\<rparr>],
         cores := [(cores users_store ! 0)\<lparr>SourceRight := [InnerJoinPtr 0, InnerJoinPtr 1]\<rparr>]\<rparr>)"
    by (simp add: users_store_def users_manager_def)
  have core: "deref (cores (with_joins js)) (Context users_manager) =
      Some ((cores users_store ! 0)\<lparr>SourceRight := js\<rparr>)" for js
    by (simp add: with_joins_def deref_def users_manager_def)
  have joins: "deref (inner_joins (with_joins js)) 0 = Some \<lparr>JoinLeft = 1, JoinRight = GoNil\<rparr>"
    "deref (outer_joins (with_joins js)) 0 = Some \<lparr>JoinLeft = 1, JoinRight = GoNil\<rparr>" for js
    by (simp_all add: with_joins_def deref_def)
  have upd: "(inner_joins (with_joins js))[0 := j] = [j]" "(outer_joins (with_joins js))[0 := j] = [j]"
    for js j
    by (simp_all add: with_joins_def)
  from On_last_join [where h = "with_joins [OuterJoinPtr 0, InnerJoinPtr 0]"
      and self = users_manager and expr = "GoString ''a = b''" and a = 0
      and core = "(cores users_store ! 0)\<lparr>SourceRight := [OuterJoinPtr 0, InnerJoinPtr 0]\<rparr>"
      and j = "\<lparr>JoinLeft = 1, JoinRight = GoNil\<rparr>"] core joins
  have 3: "On (GoString ''a = b'') users_manager (with_joins [OuterJoinPtr 0, InnerJoinPtr 0]) =
     Returns (users_manager,
       (with_joins [OuterJoinPtr 0, InnerJoinPtr 0])
         \<lparr>inner_joins := [\<lparr>JoinLeft = 1, JoinRight = OnNode (GoString ''a = b'')\<rparr>]\<rparr>)"
    by (simp add: upd)
  from On_last_join [where h = "with_joins [InnerJoinPtr 0, OuterJoinPtr 0]"
      and self = users_manager and expr = "GoString ''a = b''" and a = 0
      and core = "(cores users_store ! 0)\<lparr>SourceRight := [InnerJoinPtr 0, OuterJoinPtr 0]\<rparr>"
      and j = "\<lparr>JoinLeft = 1, JoinRight = GoNil\<rparr>"] core joins
  have 4: "On (GoString ''a = b'') users_manager (with_joins [InnerJoinPtr 0, OuterJoinPtr 0]) =
     Returns (users_manager,
       (with_joins [InnerJoinPtr 0, OuterJoinPtr 0])
         \<lparr>outer_joins := [\<lparr>JoinLeft = 1, JoinRight = OnNode (GoString ''a = b'')\<rparr>]\<rparr>)"
    by (simp add: upd)
  from On_last_join [where h = "with_joins [InnerJoinPtr 0, GoString ''orders'']"
      and self = users_manager and expr = "GoString ''a = b''"
      and core = "(cores users_store ! 0)\<lparr>SourceRight := [InnerJoinPtr 0, GoString ''orders'']\<rparr>"]
    core
  have 5: "On (GoString ''a = b'') users_manager (with_joins [InnerJoinPtr 0, GoString ''orders'']) =
     Returns (users_manager, with_joins [InnerJoinPtr 0, GoString ''orders''])"
    by simp
  from a b 1 2 3 4 5 show ?thesis by blast
qed

text \<open>
  Claim C6. On a builder whose current core is allocated, \<^verbatim>\<open>InnerJoin(table)\<close> and
  \<^verbatim>\<open>OuterJoin(table)\<close> with an Accessor or a Relation node allocate one join node, whose
  left side is the relation and whose right side is nil, append the pointer to it to
  the join list of the current core and change nothing else; with an argument of any
  other type they return the builder and leave the whole store unchanged.
\<close>

theorem Join_appends:
  "(deref (cores h) (Context self) = Some core \<and> (table = AccessorFn r \<or> table = RelationPtr r) \<longrightarrow>
      InnerJoin table self h =
        Returns (self,
          h\<lparr>inner_joins := inner_joins h @ [\<lparr>JoinLeft = r, JoinRight = GoNil\<rparr>],
            cores := (cores h)[Context self :=
              core\<lparr>SourceRight := SourceRight core @ [InnerJoinPtr (length (inner_joins h))]\<rparr>]\<rparr>) \<and>
      OuterJoin table self h =
        Returns (self,
          h\<lparr>outer_joins := outer_joins h @ [\<lparr>JoinLeft = r, JoinRight = GoNil\<rparr>],
            cores := (cores h)[Context self :=
              core\<lparr>SourceRight := SourceRight core @ [OuterJoinPtr (length (outer_joins h))]\<rparr>]\<rparr>)) \<and>
   ((\<forall>r. table \<noteq> AccessorFn r \<and> table \<noteq> RelationPtr r) \<longrightarrow>
      InnerJoin table self h = Returns (self, h) \<and> OuterJoin table self h = Returns (self, h))"
  by (simp add: InnerJoin_Returns OuterJoin_Returns Join_other)

theorem Join_appends_witness:
  "deref (cores users_store) (Context users_manager) = Some (cores users_store ! 0) \<and>
   InnerJoin (AccessorFn 1) users_manager users_store =
     Returns (users_manager,
       users_store\<lparr>inner_joins := [\<lparr>JoinLeft = 1, JoinRight = GoNil\<rparr>],
         cores := [(cores users_store ! 0)\<lparr>SourceRight := [InnerJoinPtr 0]\<rparr>]\<rparr>) \<and>
   OuterJoin (AccessorFn 1) users_manager users_store =
     Returns (users_manager,
       users_store\<lparr>outer_joins := [\<lparr>JoinLeft = 1, JoinRight = GoNil\<rparr>],
         cores := [(cores users_store ! 0)\<lparr>SourceRight := [OuterJoinPtr 0]\<rparr>]\<rparr>) \<and>
   (\<forall>r. GoString ''orders'' \<noteq> AccessorFn r \<and> GoString ''orders'' \<noteq> RelationPtr r) \<and>
   InnerJoin (GoString ''orders'') users_manager users_store = Returns (users_manager, users_store) \<and>
   OuterJoin (GoString ''orders'') users_manager users_store = Returns (users_manager, users_store)"
proof -
  have a: "deref (cores users_store) (Context users_manager) = Some (cores users_store ! 0)"
    by (simp add: deref_def users_store_def users_manager_def)
  have b: "\<forall>r. GoString ''orders'' \<noteq> AccessorFn r \<and> GoString ''orders'' \<noteq> RelationPtr r"
    by simp
  from Join_appends [where h = users_store and self = users_manager
      and core = "cores users_store ! 0" and table = "AccessorFn 1" and r = 1] a
  have "InnerJoin (AccessorFn 1) users_manager users_store =
        Returns (users_manager,
          users_store\<lparr>inner_joins := inner_joins users_store @ [\<lparr>JoinLeft = 1, JoinRight = GoNil\<rparr>],
            cores := (cores users_store)[Context users_manager :=
              (cores users_store ! 0)\<lparr>SourceRight := SourceRight (cores users_store ! 0) @
                [InnerJoinPtr (length (inner_joins users_store))]\<rparr>]\<rparr>) \<and>
      OuterJoin (AccessorFn 1) users_manager users_store =
        Returns (users_manager,
          users_store\<lparr>outer_joins := outer_joins users_store @ [\<lparr>JoinLeft = 1, JoinRight = GoNil\<rparr>],
            cores := (cores users_store)[Context users_manager :=
              (cores users_store ! 0)\<lparr>SourceRight := SourceRight (cores users_store ! 0) @
                [OuterJoinPtr (length (outer_joins users_store))]\<rparr>]\<rparr>)"
    by blast
  then have 1: "InnerJoin (AccessorFn 1) users_manager users_store =
     Returns (users_manager,
       users_store\<lparr>inner_joins := [\<lparr>JoinLeft = 1, JoinRight = GoNil\<rparr>],
         cores := [(cores users_store ! 0)\<lparr>SourceRight := [InnerJoinPtr 0]\<rparr>]\<rparr>) \<and>
   OuterJoin (AccessorFn 1) users_manager users_store =
     Returns (users_manager,
       users_store\<lparr>outer_joins := [\<lparr>JoinLeft = 1, JoinRight = GoNil\<rparr>],
         cores := [(cores users_store ! 0)\<lparr>SourceRight := [OuterJoinPtr 0]\<rparr>]\<rparr>)"
    by (simp add: users_store_def users_manager_def)
  from Join_appends [where h = users_store and self = users_manager
      and table = "GoString ''orders''"] b
  have 2: "InnerJoin (GoString ''orders'') users_manager users_store = Returns (users_manager, users_store) \<and>
   OuterJoin (GoString ''orders'') users_manager users_store = Returns (users_manager, users_store)"
    by blast
  from a b 1 2 show ?thesis by blast
qed

section \<open>Claims about set operations\<close>

lemma set_Combinator_Returns:
  "deref (stmts h) (Tree self) = Some tree \<Longrightarrow>
   set_Combinator mk manager self h =
     Returns (self, h\<lparr>stmts := (stmts h)[Tree self := tree\<lparr>Combinator := mk (Tree self) (Tree manager)\<rparr>]\<rparr>)"
  by (simp add: set_Combinator_def put_stmt_def)

text \<open>
  Claim C7. For builders \<open>a\<close> and \<open>b\<close> with \<open>a\<close>'s tree allocated, \<^verbatim>\<open>a.Union(b)\<close> (likewise
  \<^verbatim>\<open>Intersect\<close> and \<^verbatim>\<open>Except\<close>) returns \<open>a\<close> and sets the Combinator field of \<open>a\<close>'s
  statement to the set-operation node whose left operand is the address of \<open>a\<close>'s own
  statement and whose right operand is the address of \<open>b\<close>'s statement. No statement
  is allocated or copied, and nothing else in the store or in either builder changes.
\<close>

theorem Combinator_by_reference:
  assumes "deref (stmts h) (Tree a) = Some tree"
  shows "Union_op b a h =
           Returns (a, h\<lparr>stmts := (stmts h)[Tree a :=
                      tree\<lparr>Combinator := UnionNode (Tree a) (Tree b)\<rparr>]\<rparr>) \<and>
         Intersect b a h =
           Returns (a, h\<lparr>stmts := (stmts h)[Tree a :=
                      tree\<lparr>Combinator := IntersectNode (Tree a) (Tree b)\<rparr>]\<rparr>) \<and>
         Except b a h =
           Returns (a, h\<lparr>stmts := (stmts h)[Tree a :=
                      tree\<lparr>Combinator := ExceptNode (Tree a) (Tree b)\<rparr>]\<rparr>)"
  using assms by (simp add: Union_op_def Intersect_def Except_def set_Combinator_Returns)

theorem Combinator_by_reference_witness:
  "deref (stmts shop_store) (Tree users_manager) = Some (stmts shop_store ! 0) \<and>
   Union_op orders_manager users_manager shop_store =
     Returns (users_manager,
       shop_store\<lparr>stmts := [(stmts shop_store ! 0)\<lparr>Combinator := UnionNode 0 1\<rparr>,
                            stmts shop_store ! 1]\<rparr>) \<and>
   Intersect orders_manager users_manager shop_store =
     Returns (users_manager,
       shop_store\<lparr>stmts := [(stmts shop_store ! 0)\<lparr>Combinator := IntersectNode 0 1\<rparr>,
                            stmts shop_store ! 1]\<rparr>) \<and>
   Except orders_manager users_manager shop_store =
     Returns (users_manager,
       shop_store\<lparr>stmts := [(stmts shop_store ! 0)\<lparr>Combinator := ExceptNode 0 1\<rparr>,
                            stmts shop_store ! 1]\<rparr>)"
proof -
  have a: "deref (stmts shop_store) (Tree users_manager) = Some (stmts shop_store ! 0)"
    by (simp add: deref_def shop_store_def users_manager_def)
  have upd: "(stmts shop_store)[0 := x] = [x, stmts shop_store ! Suc 0]" for x
    by (simp add: shop_store_def)
  have t: "Tree users_manager = 0" "Tree orders_manager = 1"
    by (simp_all add: users_manager_def orders_manager_def)
  from Combinator_by_reference [OF a, of orders_manager] a show ?thesis
    by (simp add: upd t)
qed

section \<open>Claims about Table and the Accessor\<close>

text \<open>
  Claim C8 says that \<^verbatim>\<open>Table(name)\<close> creates a Relation and a SelectStatement seeded
  with one core. \<^verbatim>\<open>Table\<close> creates the Relation and the Accessor only: after
  \<^verbatim>\<open>Table("users")\<close> on the empty store there is one relation, no statement and no core.
\<close>

theorem Table_counterexample:
  "Table ''users'' empty_store =
     (AccessorFn 0, \<lparr>relations = [\<lparr>Name = ''users''\<rparr>], inner_joins = [], outer_joins = [],
                     cores = [], stmts = []\<rparr>)"
  by (simp add: Table_def nodes_Relation_def empty_store_def)

text \<open>
  Claim C8, amended. \<^verbatim>\<open>Table(name)\<close> creates a Relation with that name and returns an
  Accessor bound to it, and creates nothing else. The builder is made by
  \<^verbatim>\<open>Selection\<close>: called on the Accessor's relation it returns a builder whose new
  SelectStatement has exactly one core, a new one referencing that Relation, and that
  core is the builder's Context (the current mutation target).
\<close>

theorem Table_then_Selection:
  assumes "Table name h = (acc, h1)"
  shows "\<exists>relation. acc = AccessorFn relation \<and>
           h1 = h\<lparr>relations := relations h @ [\<lparr>Name = name\<rparr>]\<rparr> \<and>
           deref (relations h1) relation = Some \<lparr>Name = name\<rparr> \<and>
           (\<exists>self h2 stmt core.
              Selection (Accessor_Relation relation) h1 = Returns (self, h2) \<and>
              relations h2 = relations h1 \<and>
              stmts h2 = stmts h1 @ [stmt] \<and> cores h2 = cores h1 @ [core] \<and>
              deref (stmts h2) (Tree self) = Some stmt \<and>
              Cores stmt = [Context self] \<and>
              deref (cores h2) (Context self) = Some core \<and>
              Relation core = relation)"
proof -
  let ?r = "length (relations h)"
  from assms have acc: "acc = AccessorFn ?r" and h1: "h1 = h\<lparr>relations := relations h @ [\<lparr>Name = name\<rparr>]\<rparr>"
    by (auto simp: Table_def nodes_Relation_def)
  from h1 have rel: "deref (relations h1) ?r = Some \<lparr>Name = name\<rparr>"
    by (simp add: deref_def)
  let ?core = "\<lparr>Relation = ?r, Projections = [], Wheres = [],
                  SourceLeft = ?r, SourceRight = [], Groups = [], Having = GoNil\<rparr>"
  let ?stmt = "\<lparr>Cores = [length (cores h1)], Orders = [], Limit = GoNil, Offset = GoNil,
                  Combinator = GoNil\<rparr>"
  let ?self = "\<lparr>Tree = length (stmts h1), Context = length (cores h1), engine = NilKey\<rparr>"
  let ?h2 = "h1\<lparr>cores := cores h1 @ [?core], stmts := stmts h1 @ [?stmt]\<rparr>"
  have sel: "Selection (Accessor_Relation ?r) h1 = Returns (?self, ?h2)"
    by (simp add: Selection_def nodes_SelectStatement_def Accessor_Relation_def deref_def Let_def)
  have "relations ?h2 = relations h1 \<and>
        stmts ?h2 = stmts h1 @ [?stmt] \<and> cores ?h2 = cores h1 @ [?core] \<and>
        deref (stmts ?h2) (Tree ?self) = Some ?stmt \<and>
        Cores ?stmt = [Context ?self] \<and>
        deref (cores ?h2) (Context ?self) = Some ?core \<and>
        Relation ?core = ?r"
    by (simp add: deref_def)
  with sel acc h1 rel show ?thesis by blast
qed

theorem Table_then_Selection_witness:
  "Table ''users'' empty_store = (AccessorFn 0, empty_store\<lparr>relations := [\<lparr>Name = ''users''\<rparr>]\<rparr>) \<and>
   Selection (Accessor_Relation 0) (empty_store\<lparr>relations := [\<lparr>Name = ''users''\<rparr>]\<rparr>) =
     Returns (users_manager, users_store)"
proof -
  have a: "Table ''users'' empty_store = (AccessorFn 0, empty_store\<lparr>relations := [\<lparr>Name = ''users''\<rparr>]\<rparr>)"
    by (simp add: Table_def nodes_Relation_def empty_store_def)
  from Table_then_Selection [OF a] obtain self :: SelectManager and h2 :: store where
    sel: "Selection (Accessor_Relation 0) (empty_store\<lparr>relations := [\<lparr>Name = ''users''\<rparr>]\<rparr>) =
      Returns (self, h2)"
    by auto
  have "Selection (Accessor_Relation 0) (empty_store\<lparr>relations := [\<lparr>Name = ''users''\<rparr>]\<rparr>) =
     Returns (users_manager, users_store)"
    by (simp add: Selection_def nodes_SelectStatement_def Accessor_Relation_def deref_def Let_def
        empty_store_def users_manager_def users_store_def)
  with a sel show ?thesis by simp
qed

text \<open>
  Claim C9. The Accessor returned by \<^verbatim>\<open>Table(name)\<close> is bound to a Relation named
  \<open>name\<close>; applied to a string \<open>s\<close> it yields \<open>Attribute(Column(s), relation)\<close>, and
  applied to any value \<open>n\<close> that is not a string it yields \<open>Attribute(n, relation)\<close>,
  with \<open>n\<close> wrapped as it is. The Accessor is a function of its argument alone: it
  reads and writes no store and has no error result, so two calls with the same
  argument yield equal nodes.
\<close>

theorem Accessor_wraps:
  assumes "Table name h = (acc, h')"
  shows "\<exists>relation. acc = AccessorFn relation \<and>
           deref (relations h') relation = Some \<lparr>Name = name\<rparr> \<and>
           Accessor_call relation (GoString s) = AttributeNode (ColumnNode (GoString s)) relation \<and>
           ((\<forall>s. n \<noteq> GoString s) \<longrightarrow> Accessor_call relation n = AttributeNode n relation)"
proof -
  from assms have "acc = AccessorFn (length (relations h))"
    and "deref (relations h') (length (relations h)) = Some \<lparr>Name = name\<rparr>"
    by (auto simp: Table_def nodes_Relation_def deref_def)
  moreover have "Accessor_call r (GoString s) = AttributeNode (ColumnNode (GoString s)) r" for r
    by (simp add: Accessor_call_def)
  moreover have "Accessor_call r n = AttributeNode n r" if "\<forall>s. n \<noteq> GoString s" for r
    using that by (cases n) (simp_all add: Accessor_call_def)
  ultimately show ?thesis by blast
qed

theorem Accessor_wraps_witness:
  "Table ''users'' empty_store = (AccessorFn 0, empty_store\<lparr>relations := [\<lparr>Name = ''users''\<rparr>]\<rparr>) \<and>
   Accessor_call 0 (GoString ''id'') = AttributeNode (ColumnNode (GoString ''id'')) 0 \<and>
   (\<forall>s. StarNode \<noteq> GoString s) \<and>
   Accessor_call 0 StarNode = AttributeNode StarNode 0"
proof -
  have a: "Table ''users'' empty_store = (AccessorFn 0, empty_store\<lparr>relations := [\<lparr>Name = ''users''\<rparr>]\<rparr>)"
    by (simp add: Table_def nodes_Relation_def empty_store_def)
  have b: "\<forall>s. StarNode \<noteq> GoString s"
    by simp
  from Accessor_wraps [OF a, of "''id''" StarNode] a b show ?thesis
    by auto
qed

section \<open>Claims about Project after ToSql\<close>

lemma Project_Returns:
  "deref (cores h) (Context self) = Some core \<Longrightarrow>
   Project projections self h =
     Returns (self, put_core (Context self)
        (core\<lparr>Projections := Projections core @ map literal_of_string projections\<rparr>) h)"
proof (induction projections arbitrary: h core)
  case Nil
  then show ?case
    by (auto simp: put_core_def deref_Some_iff)
next
  case (Cons p ps)
  let ?core1 = "core\<lparr>Projections := Projections core @ [literal_of_string p]\<rparr>"
  from Cons.prems have "deref (cores (put_core (Context self) ?core1 h)) (Context self) = Some ?core1"
    by (simp add: put_core_def deref_def split: if_splits)
  from Cons.IH [OF this] Cons.prems show ?case
    by (simp add: put_core_def)
qed

lemma valid_builderD:
  assumes "valid_builder h self"
  obtains tree where "deref (stmts h) (Tree self) = Some tree"
    and "Context self \<in> set (Cores tree)"
    and "list_all (\<lambda>c. c < length (cores h)) (Cores tree)"
  using assms
  by (auto simp: valid_builder_def list_ex_iff split: option.splits)

text \<open>
  Claim C10 says that after a \<^verbatim>\<open>ToSql()\<close> call on a builder whose current core had no
  projections, \<^verbatim>\<open>Project(x)\<close> makes the Projections list \<open>[Attribute(Star, relation), x]\<close>.
  For a raw string \<open>x\<close> the second entry is not \<open>x\<close>: \<^verbatim>\<open>Project\<close> wraps it in a Literal
  node first.
\<close>

theorem Project_after_ToSql_counterexample:
  "ToSql example_VISITORS users_manager users_store =
     Returns ((''SELECT users.* FROM users'', None),
              users_manager\<lparr>engine := StringKey ''to_sql''\<rparr>,
              users_store\<lparr>cores := [(cores users_store ! 0)\<lparr>Projections := [AttributeNode StarNode 0]\<rparr>]\<rparr>) \<and>
   Project [GoString ''id''] (users_manager\<lparr>engine := StringKey ''to_sql''\<rparr>)
     (users_store\<lparr>cores := [(cores users_store ! 0)\<lparr>Projections := [AttributeNode StarNode 0]\<rparr>]\<rparr>) =
     Returns (users_manager\<lparr>engine := StringKey ''to_sql''\<rparr>,
       users_store\<lparr>cores := [(cores users_store ! 0)\<lparr>Projections :=
          [AttributeNode StarNode 0, LiteralNode (GoString ''id'')]\<rparr>]\<rparr>) \<and>
   [AttributeNode StarNode 0, LiteralNode (GoString ''id'')] \<noteq>
   [AttributeNode StarNode 0, GoString ''id'']"
  by (simp add: ToSql_def deref_def users_store_def users_manager_def example_VISITORS_def
      default_engine_def put_core_def example_visitor_def render_core_def
      relation_name_def literal_of_string_def Let_def)

text \<open>
  Claim C10, amended. For every builder as \<^verbatim>\<open>Selection\<close> makes it (the current core is
  one of the cores of its tree) whose current core has an empty Projections list and
  whose effective engine is registered: one \<^verbatim>\<open>ToSql()\<close> call leaves
  \<open>Attribute(Star, relation)\<close> in the core's Projections; a subsequent \<^verbatim>\<open>Project(x)\<close>
  makes the list \<open>[Attribute(Star, relation), x']\<close>, where \<open>x'\<close> is \<open>Literal(x)\<close> when
  \<open>x\<close> is a raw string and \<open>x\<close> itself otherwise; and a later \<^verbatim>\<open>ToSql()\<close> hands the
  visitor the tree with exactly this list, star first, and changes nothing, so that
  the same holds for every render after it.
\<close>

theorem star_stays:
  assumes "valid_builder h self"
    and "deref (cores h) (Context self) = Some core"
    and "Projections core = []"
    and "VISITORS (engine (default_engine self)) = Some accept"
  shows "\<exists>r self1 h1 h2.
      ToSql VISITORS self h = Returns (r, self1, h1) \<and>
      Projections (cores h1 ! Context self) = [AttributeNode StarNode (Relation core)] \<and>
      Project [x] self1 h1 = Returns (self1, h2) \<and>
      Projections (cores h2 ! Context self) =
        [AttributeNode StarNode (Relation core), if is_string x then LiteralNode x else x] \<and>
      ToSql VISITORS self1 h2 = Returns (accept h2 (Tree self), self1, h2)"
proof -
  from assms(1) obtain tree where
    tree: "deref (stmts h) (Tree self) = Some tree" and
    ctx: "Context self \<in> set (Cores tree)" and
    valid: "list_all (\<lambda>c. c < length (cores h)) (Cores tree)"
    by (rule valid_builderD)
  let ?self1 = "default_engine self"
  let ?c = "Context self"
  let ?star = "AttributeNode StarNode (Relation core)"
  from ToSql_run [where VISITORS = VISITORS and accept = accept, OF tree valid assms(4)]
  obtain h1 where
    loop: "inject_star (Cores tree) h = Returns h1" and
    run: "ToSql VISITORS self h = Returns (accept h1 (Tree self), ?self1, h1)"
    by blast
  note frame = inject_star_frame [OF loop]
  from assms(2) have c: "?c < length (cores h)" and core: "cores h ! ?c = core"
    by (simp_all add: deref_Some_iff)
  have h1_cores: "cores h1 ! i = star_default (cores h ! i)" if "i \<in> set (Cores tree)" for i
  proof -
    from that valid have "i < length (cores h)"
      by (simp add: list_all_iff)
    from inject_star_cores [OF loop this] that show ?thesis by simp
  qed
  from h1_cores [OF ctx] core assms(3)
  have core1: "cores h1 ! ?c = core\<lparr>Projections := [?star]\<rparr>"
    by (simp add: star_default_def)
  then have p1: "Projections (cores h1 ! ?c) = [?star]"
    by simp
  let ?core2 = "core\<lparr>Projections := [?star, literal_of_string x]\<rparr>"
  let ?h2 = "put_core ?c ?core2 h1"
  from c frame core1 have "deref (cores h1) (Context ?self1) = Some (core\<lparr>Projections := [?star]\<rparr>)"
    by (simp add: deref_def default_engine_fields)
  from Project_Returns [OF this, of "[x]"]
  have proj: "Project [x] ?self1 h1 = Returns (?self1, ?h2)"
    by (simp add: default_engine_fields)
  from c frame have p2: "Projections (cores ?h2 ! ?c) =
      [?star, if is_string x then LiteralNode x else x]"
    by (simp add: put_core_def literal_of_string_def)
  have "i < length (cores ?h2) \<and> Projections (cores ?h2 ! i) \<noteq> []"
    if "i \<in> set (Cores tree)" for i
  proof -
    from that valid have i: "i < length (cores h)"
      by (simp add: list_all_iff)
    show ?thesis
    proof (cases "i = ?c")
      case True
      with c frame show ?thesis by (simp add: put_core_def)
    next
      case False
      with i frame h1_cores [OF that] show ?thesis
        by (simp add: put_core_def star_default_nonempty)
    qed
  qed
  then have "inject_star (Cores tree) ?h2 = Returns ?h2"
    by (intro inject_star_noop) (simp add: list_all_iff)
  moreover from tree frame have "deref (stmts ?h2) (Tree ?self1) = Some tree"
    by (simp add: default_engine_fields put_core_def)
  ultimately have again: "ToSql VISITORS ?self1 ?h2 = Returns (accept ?h2 (Tree self), ?self1, ?h2)"
    using assms(4) by (simp add: ToSql_def Let_def default_engine_idem default_engine_fields)
  from run p1 proj p2 again show ?thesis by blast
qed

theorem star_stays_witness:
  "valid_builder users_store users_manager \<and>
   deref (cores users_store) (Context users_manager) = Some (cores users_store ! 0) \<and>
   Projections (cores users_store ! 0) = [] \<and>
   example_VISITORS (engine (default_engine users_manager)) = Some example_visitor \<and>
   (\<exists>r self1 h1 h2.
      ToSql example_VISITORS users_manager users_store = Returns (r, self1, h1) \<and>
      Projections (cores h1 ! 0) = [AttributeNode StarNode 0] \<and>
      Project [GoString ''id''] self1 h1 = Returns (self1, h2) \<and>
      Projections (cores h2 ! 0) = [AttributeNode StarNode 0, LiteralNode (GoString ''id'')] \<and>
      ToSql example_VISITORS self1 h2 = Returns (example_visitor h2 0, self1, h2))"
proof -
  have a: "valid_builder users_store users_manager"
    by (simp add: valid_builder_def deref_def users_store_def users_manager_def)
  have b: "deref (cores users_store) (Context users_manager) = Some (cores users_store ! 0)"
    by (simp add: deref_def users_store_def users_manager_def)
  have c: "Projections (cores users_store ! 0) = []"
    by (simp add: users_store_def)
  have d: "example_VISITORS (engine (default_engine users_manager)) = Some example_visitor"
    by (simp add: example_VISITORS_def default_engine_def users_manager_def)
  have e: "Context users_manager = 0" "Tree users_manager = 0" "Relation (cores users_store ! 0) = 0"
    by (simp_all add: users_manager_def users_store_def)
  from star_stays [where VISITORS = example_VISITORS and accept = example_visitor
      and x = "GoString ''id''", OF a b c d]
  have "\<exists>r self1 h1 h2.
      ToSql example_VISITORS users_manager users_store = Returns (r, self1, h1) \<and>
      Projections (cores h1 ! 0) = [AttributeNode StarNode 0] \<and>
      Project [GoString ''id''] self1 h1 = Returns (self1, h2) \<and>
      Projections (cores h2 ! 0) = [AttributeNode StarNode 0, LiteralNode (GoString ''id'')] \<and>
      ToSql example_VISITORS self1 h2 = Returns (example_visitor h2 0, self1, h2)"
    by (simp add: e)
  with a b c d show ?thesis by blast
qed

section \<open>Builders made by the package are valid\<close>

text \<open>
  \<^verbatim>\<open>Selection\<close> returns a valid builder, and every method of the manager that returns
  keeps it valid: no method changes the Tree or the Context of the manager or the Cores
  list of a statement, and no core is ever removed from the store.
\<close>

lemma Selection_valid:
  "Selection relation h = Returns (self, h') \<Longrightarrow> valid_builder h' self"
  by (auto simp: Selection_def nodes_SelectStatement_def valid_builder_def deref_def Let_def)

lemma valid_builder_kept:
  assumes "valid_builder h self"
    and "Tree self' = Tree self" and "Context self' = Context self"
    and "length (stmts h') = length (stmts h)"
    and "Cores (stmts h' ! Tree self) = Cores (stmts h ! Tree self)"
    and "length (cores h) \<le> length (cores h')"
  shows "valid_builder h' self'"
  using assms
  by (auto simp: valid_builder_def deref_def list_all_iff split: if_splits)

lemma put_core_valid: "valid_builder h self \<Longrightarrow> valid_builder (put_core c core h) self"
  by (erule valid_builder_kept) (simp_all add: put_core_def)

lemma put_stmt_valid:
  "valid_builder h self \<Longrightarrow> Cores stmt = Cores (stmts h ! t) \<Longrightarrow>
   valid_builder (put_stmt t stmt h) self"
proof -
  assume valid: "valid_builder h self" and same: "Cores stmt = Cores (stmts h ! t)"
  from valid have "Tree self < length (stmts h)"
    by (auto simp: valid_builder_def deref_def split: if_splits)
  with same have eq: "Cores ((stmts h)[t := stmt] ! Tree self) = Cores (stmts h ! Tree self)"
    by (cases "t = Tree self") simp_all
  from valid show ?thesis
    by (rule valid_builder_kept) (simp_all add: put_stmt_def eq)
qed

lemma Project_valid:
  "valid_builder h self \<Longrightarrow> Project ps self h = Returns (self', h') \<Longrightarrow> valid_builder h' self'"
  by (induction ps arbitrary: h) (auto split: option.splits intro: put_core_valid)

lemma Group_valid:
  "valid_builder h self \<Longrightarrow> Group gs self h = Returns (self', h') \<Longrightarrow> valid_builder h' self'"
  by (induction gs arbitrary: h) (auto split: option.splits intro: put_core_valid)

lemma Where_Having_valid:
  "valid_builder h self \<Longrightarrow> Where expr self h = Returns (self', h') \<Longrightarrow> valid_builder h' self'"
  "valid_builder h self \<Longrightarrow> Having_op expr self h = Returns (self', h') \<Longrightarrow> valid_builder h' self'"
  by (auto simp: Where_def Having_op_def split: option.splits intro: put_core_valid)

lemma statement_methods_valid:
  "valid_builder h self \<Longrightarrow> Offset_op n self h = Returns (self', h') \<Longrightarrow> valid_builder h' self'"
  "valid_builder h self \<Longrightarrow> Limit_op n self h = Returns (self', h') \<Longrightarrow> valid_builder h' self'"
  "valid_builder h self \<Longrightarrow> Order expr self h = Returns (self', h') \<Longrightarrow> valid_builder h' self'"
  "valid_builder h self \<Longrightarrow> set_Combinator mk manager self h = Returns (self', h') \<Longrightarrow>
   valid_builder h' self'"
  by (auto simp: Offset_op_def Limit_op_def Order_def set_Combinator_def deref_Some_iff
      split: option.splits intro!: put_stmt_valid)

lemma append_join_valid:
  assumes "valid_builder h self"
    and "length (cores h1) = length (cores h)" and "stmts h1 = stmts h"
    and "append_join (join, h1) self = Returns (self', h')"
  shows "valid_builder h' self'"
proof -
  from assms(4) obtain core where
    "self' = self" and "h' = put_core (Context self) (core\<lparr>SourceRight := SourceRight core @ [join]\<rparr>) h1"
    by (auto simp: append_join_def split: option.splits)
  with assms(1-3) show ?thesis
    by (intro valid_builder_kept [OF assms(1)]) (simp_all add: put_core_def)
qed

lemma InnerJoin_valid:
  assumes "valid_builder h self" and "InnerJoin table self h = Returns (self', h')"
  shows "valid_builder h' self'"
proof (cases "\<exists>r. table = AccessorFn r \<or> table = RelationPtr r")
  case True
  then obtain r where "table = AccessorFn r \<or> table = RelationPtr r" ..
  with assms(2) have "append_join (nodes_InnerJoin r GoNil h) self = Returns (self', h')"
    by (auto simp: Accessor_Relation_def)
  then show ?thesis
    unfolding nodes_InnerJoin_def
    by (rule append_join_valid [OF assms(1), rotated 2]) simp_all
next
  case False
  then have "InnerJoin table self h = Returns (self, h)"
    by (intro Join_other) simp
  with assms show ?thesis by simp
qed

lemma OuterJoin_valid:
  assumes "valid_builder h self" and "OuterJoin table self h = Returns (self', h')"
  shows "valid_builder h' self'"
proof (cases "\<exists>r. table = AccessorFn r \<or> table = RelationPtr r")
  case True
  then obtain r where "table = AccessorFn r \<or> table = RelationPtr r" ..
  with assms(2) have "append_join (nodes_OuterJoin r GoNil h) self = Returns (self', h')"
    by (auto simp: Accessor_Relation_def)
  then show ?thesis
    unfolding nodes_OuterJoin_def
    by (rule append_join_valid [OF assms(1), rotated 2]) simp_all
next
  case False
  then have "OuterJoin table self h = Returns (self, h)"
    by (intro Join_other) simp
  with assms show ?thesis by simp
qed

lemma set_join_right_frame:
  "set_join_right n expr h = Returns h' \<Longrightarrow> cores h' = cores h \<and> stmts h' = stmts h"
  by (cases n) (auto split: option.splits)

lemma On_valid:
  assumes "valid_builder h self" and "On expr self h = Returns (self', h')"
  shows "valid_builder h' self'"
proof -
  from assms(2) obtain core where core: "deref (cores h) (Context self) = Some core"
    by (auto simp: On_def split: option.splits)
  show ?thesis
  proof (cases "SourceRight core = []")
    case True
    with assms(2) core have "self' = self" and "h' = h"
      by (simp_all add: On_def)
    with assms(1) show ?thesis by simp
  next
    case False
    with assms(2) core have self': "self' = self" and
      "set_join_right (SourceRight core ! (length (SourceRight core) - 1)) expr h = Returns h'"
      by (simp_all add: On_def Let_def split: outcome.splits)
    from set_join_right_frame [OF this(2)] self' show ?thesis
      by (intro valid_builder_kept [OF assms(1)]) simp_all
  qed
qed

lemma Engine_keeps_registered:
  assumes "engine self = NilKey \<or> VISITORS (engine self) \<noteq> None"
    and "Engine VISITORS arg self = Returns self'"
  shows "engine self' = NilKey \<or> VISITORS (engine self') \<noteq> None"
  using assms by (cases arg) (auto split: option.splits)

lemma Engine_valid:
  "valid_builder h self \<Longrightarrow> Engine VISITORS arg self = Returns self' \<Longrightarrow> valid_builder h self'"
  by (cases arg) (auto split: option.splits elim: valid_builder_kept)

lemma ToSql_valid:
  assumes "valid_builder h self" and "ToSql VISITORS self h = Returns (r, self', h')"
  shows "valid_builder h' self'"
  using ToSql_ReturnsD [OF assms(2)]
proof (elim exE conjE)
  fix tree :: SelectStatementNode and accept :: visitor
  assume "inject_star (Cores tree) h = Returns h'" and self': "self' = default_engine self"
  from inject_star_frame [OF this(1)] assms(1) self' show ?thesis
    by (auto simp: default_engine_fields elim!: valid_builder_kept)
qed

end
